theory Spec2Isabelle
  imports Main "HOL-Library.Sublist"
begin

section \<open>JavaScript values\<close>

text \<open>
  The services are TypeScript. The parts of the JavaScript runtime they rely on are
  modelled here: the \<open>number\<close> values that can hold a timestamp, \<open>parseInt(s, 10)\<close>,
  \<open>Number(bigint)\<close>, truthiness of strings and thrown values.

  A \<open>number\<close> is an IEEE double. Every number the services handle is the result of
  \<open>parseInt\<close>, of \<open>Number\<close> applied to a bigint, or a literal, so it is \<open>NaN\<close>, an
  infinity, or a double whose value is an integer (\<open>-0\<close> and \<open>0\<close> are not told apart:
  \<open>===\<close>, \<open><\<close> and \<open><=\<close> do not distinguish them). Fractions do not occur.
\<close>

datatype number = NaN | NegInfinity | Number int | PosInfinity

definition MAX_SAFE_INTEGER :: int where
  "MAX_SAFE_INTEGER = 9007199254740991"

text \<open>Number of binary digits of a natural number.\<close>

fun bitLength :: "nat \<Rightarrow> nat" where
  "bitLength n = (if n = 0 then 0 else Suc (bitLength (n div 2)))"

declare bitLength.simps [simp del]

text \<open>
  The double nearest to a natural number, ties to even (the rounding of the language
  specification): numbers below \<open>2^53\<close> are doubles themselves; a longer one keeps its 53
  leading bits \<open>q\<close> and is rounded on the \<open>e\<close> bits \<open>r\<close> it loses.
\<close>

definition roundToDouble :: "nat \<Rightarrow> nat" where
  "roundToDouble n =
     (if n < 2 ^ 53 then n
      else let e = bitLength n - 53;
               q = n div 2 ^ e;
               r = n mod 2 ^ e;
               half = 2 ^ (e - 1)
           in (if half < r \<or> (r = half \<and> odd q) then q + 1 else q) * 2 ^ e)"

text \<open>
  \<open>Number(b)\<close> for a bigint \<open>b\<close>, and the last step of \<open>parseInt\<close>: the rounded value, or
  an infinity once the rounded magnitude reaches \<open>2^1024\<close>.
\<close>

definition toNumber :: "int \<Rightarrow> number" where
  "toNumber i =
     (let m = roundToDouble (nat \<bar>i\<bar>)
      in if 2 ^ 1024 \<le> m then (if i < 0 then NegInfinity else PosInfinity)
         else Number (if i < 0 then - int m else int m))"

text \<open>The comparisons \<open>a < b\<close> and \<open>a <= b\<close> on numbers: false when either side is \<open>NaN\<close>.\<close>

fun num_lt :: "number \<Rightarrow> number \<Rightarrow> bool" where
  "num_lt NaN _ = False"
| "num_lt _ NaN = False"
| "num_lt (Number a) (Number b) = (a < b)"
| "num_lt NegInfinity NegInfinity = False"
| "num_lt NegInfinity _ = True"
| "num_lt _ NegInfinity = False"
| "num_lt PosInfinity _ = False"
| "num_lt _ PosInfinity = True"

fun num_le :: "number \<Rightarrow> number \<Rightarrow> bool" where
  "num_le NaN _ = False"
| "num_le _ NaN = False"
| "num_le a b = (a = b \<or> num_lt a b)"

fun isNaN :: "number \<Rightarrow> bool" where
  "isNaN NaN = True"
| "isNaN _ = False"

text \<open>
  Truthiness of a number (\<open>0\<close> and \<open>NaN\<close> are falsy) and of an optional string (\<open>undefined\<close>
  and the empty string are falsy).
\<close>

fun truthy_number :: "number \<Rightarrow> bool" where
  "truthy_number NaN = False"
| "truthy_number (Number i) = (i \<noteq> 0)"
| "truthy_number _ = True"

fun truthy :: "string option \<Rightarrow> bool" where
  "truthy None = False"
| "truthy (Some s) = (s \<noteq> [])"

text \<open>\<open>x || d\<close> for an optional string \<open>x\<close> and a string \<open>d\<close>.\<close>

fun or_else :: "string option \<Rightarrow> string \<Rightarrow> string" where
  "or_else (Some s) d = (if s \<noteq> [] then s else d)"
| "or_else None d = d"

subsection \<open>\<open>parseInt(s, 10)\<close>\<close>

text \<open>
  A string is the UTF-8 encoding of the JavaScript string: an ASCII character is one byte,
  any other character two to four bytes, none of them an ASCII byte.

  \<open>parseInt\<close> skips leading white space, reads an optional sign, then the longest run of
  decimal digits; with no digit the result is \<open>NaN\<close>, otherwise the signed value as a
  double. Whatever follows the digits is ignored. (An engine may read the digits after
  the 20th as zeros; such a value is far above the maximum safe integer either way.)

  The white space skipped is that of the language: the characters \<open>WhiteSpace\<close> and
  \<open>LineTerminator\<close>. In UTF-8 these are the six ASCII bytes TAB, LF, VT, FF, CR and
  SP, the two bytes of U+00A0, and the three bytes of U+1680, U+2000 to U+200A, U+2028,
  U+2029, U+202F, U+205F, U+3000 and U+FEFF.
\<close>

definition isWhiteSpace :: "char \<Rightarrow> bool" where
  "isWhiteSpace c = (c \<in> set [CHR 0x09, CHR 0x0A, CHR 0x0B, CHR 0x0C, CHR 0x0D, CHR 0x20])"

definition isWhiteSpace2 :: "char \<Rightarrow> char \<Rightarrow> bool" where
  "isWhiteSpace2 a b = (a = CHR 0xC2 \<and> b = CHR 0xA0)"

definition isWhiteSpace3 :: "char \<Rightarrow> char \<Rightarrow> char \<Rightarrow> bool" where
  "isWhiteSpace3 a b c =
     ((a = CHR 0xE1 \<and> b = CHR 0x9A \<and> c = CHR 0x80) \<or>
      (a = CHR 0xE2 \<and> b = CHR 0x80 \<and>
         ((0x80 \<le> (of_char c :: nat) \<and> (of_char c :: nat) \<le> 0x8A) \<or>
          c = CHR 0xA8 \<or> c = CHR 0xA9 \<or> c = CHR 0xAF)) \<or>
      (a = CHR 0xE2 \<and> b = CHR 0x81 \<and> c = CHR 0x9F) \<or>
      (a = CHR 0xE3 \<and> b = CHR 0x80 \<and> c = CHR 0x80) \<or>
      (a = CHR 0xEF \<and> b = CHR 0xBB \<and> c = CHR 0xBF))"

text \<open>The string without its leading white space.\<close>

fun trimStart :: "string \<Rightarrow> string" where
  "trimStart (a # b # c # s) =
     (if isWhiteSpace a then trimStart (b # c # s)
      else if isWhiteSpace2 a b then trimStart (c # s)
      else if isWhiteSpace3 a b c then trimStart s
      else a # b # c # s)"
| "trimStart [a, b] =
     (if isWhiteSpace a then trimStart [b]
      else if isWhiteSpace2 a b then []
      else [a, b])"
| "trimStart [a] = (if isWhiteSpace a then [] else [a])"
| "trimStart [] = []"

definition isDigit :: "char \<Rightarrow> bool" where
  "isDigit c = (48 \<le> (of_char c :: nat) \<and> (of_char c :: nat) \<le> 57)"

definition digitValue :: "char \<Rightarrow> nat" where
  "digitValue c = of_char c - 48"

definition digitsValue :: "string \<Rightarrow> nat" where
  "digitsValue ds = foldl (\<lambda>a c. 10 * a + digitValue c) 0 ds"

definition parseInt10 :: "string \<Rightarrow> number" where
  "parseInt10 s =
     (let S = trimStart s;
          negative = (case S of c # _ \<Rightarrow> c = CHR ''-'' | [] \<Rightarrow> False);
          S' = (case S of c # cs \<Rightarrow> if c = CHR ''+'' \<or> c = CHR ''-'' then cs else S | [] \<Rightarrow> S);
          Z = takeWhile isDigit S'
      in if Z = [] then NaN
         else toNumber (if negative then - int (digitsValue Z) else int (digitsValue Z)))"

text \<open>The decimal numeral of a natural number, as template strings and the index print it.\<close>

fun decimal :: "nat \<Rightarrow> string" where
  "decimal n =
     (if n < 10 then [char_of (48 + n)] else decimal (n div 10) @ [char_of (48 + n mod 10)])"

declare decimal.simps [simp del]

text \<open>\<open>xs.join(sep)\<close> on an array of strings.\<close>

fun join :: "string \<Rightarrow> string list \<Rightarrow> string" where
  "join sep [] = []"
| "join sep [x] = x"
| "join sep (x # y # ys) = x @ sep @ join sep (y # ys)"

subsection \<open>Thrown values\<close>

text \<open>
  Every \<open>catch\<close> of the services reads \<open>error instanceof Error ? error.message : d\<close>, so a
  thrown value is an \<open>Error\<close> with its message or something else.
\<close>

datatype exn = Error string | NonError

fun errorMessage :: "string \<Rightarrow> exn \<Rightarrow> string" where
  "errorMessage d (Error m) = m"
| "errorMessage d NonError = d"

section \<open>Data model\<close>

text \<open>
  The records of \<open>types/attestation.ts\<close> and \<open>types/eas.ts\<close>, and the wire objects
  declared at the top of \<open>services/graphqlService.ts\<close>. Field names are the source's; where
  two records share one, the record name qualifies it. The field \<open>id\<close> is written \<open>id'\<close>.
\<close>

datatype network = testnet | mainnet

record NetworkConfig =
  name :: network
  rpcUrl :: string
  rasContract :: string
  schemaRegistry :: string

text \<open>The part of \<open>process.env\<close> the index client reads.\<close>

record Env =
  GRAPHQL_ENDPOINT_TESTNET :: "string option"
  GRAPHQL_ENDPOINT_MAINNET :: "string option"

record GraphQLSchemaRef =
  id' :: string

record GraphQLAttestation =
  id' :: string
  attester :: string
  recipient :: string
  revoked :: bool
  revocable :: bool
  refUID :: string
  data :: string
  timeCreated :: string
  expirationTime :: string
  revocationTime :: string
  schema :: GraphQLSchemaRef

record GraphQLError =
  message :: string

record GraphQLData =
  attestations :: "GraphQLAttestation list"

record GraphQLSingleData =
  attestation :: "GraphQLAttestation option"

text \<open>
  The body of a reply of the index service: \<open>data\<close> and \<open>errors\<close> are each present or not.
  \<open>queryAttestations\<close> annotates the body with both; \<open>queryAttestationsByUID\<close> annotates
  it with \<open>data\<close> alone, but the service sends the same envelope to both. Inside
  \<open>data\<close> the body is taken to have the shape of its annotation.
\<close>

record 'd GraphQLResponse =
  data :: "'d option"
  errors :: "GraphQLError list option"

text \<open>
  What \<open>fetch\<close> resolves to: the status line, and what \<open>json()\<close> then gives (the parsed
  body, or a thrown value when the body cannot be parsed).
\<close>

record 'b Response =
  ok :: bool
  status :: nat
  statusText :: string
  json :: "exn + 'b"

record Filters =
  recipient :: "string option"
  attester :: "string option"
  schema :: "string option"
  limit :: "number option"

record Variables =
  recipient :: "string option"
  attester :: "string option"
  schema :: "string option"
  limit :: number

record QueryBody =
  query :: string
  variables :: Variables

record UidVariables =
  uid :: string

record UidQueryBody =
  query :: string
  variables :: UidVariables

text \<open>A ledger record as the contract client returns it: the timestamps are bigints.\<close>

record EASAttestation =
  uid :: string
  schema :: string
  recipient :: string
  attester :: string
  revocable :: bool
  refUID :: string
  data :: string
  time :: int
  expirationTime :: int
  revocationTime :: int

text \<open>
  A submitted transaction. \<open>hash\<close> is guarded with \<open>|| 'unknown'\<close> by every caller;
  \<open>wait\<close> is the outcome of awaiting confirmation; the two derivation methods are
  optional members, and calling one gives a thrown value or an identifier that may be
  \<open>undefined\<close>.
\<close>

record EASTransaction =
  hash :: "string option"
  wait :: "exn + unit"
  getAttestationUID :: "(exn + string option) option"
  getSchemaUID :: "(exn + string option) option"

record EASSchemaRegistry =
  register :: "string \<Rightarrow> string \<Rightarrow> bool \<Rightarrow> exn + EASTransaction"

record AttestationRequestData =
  recipient :: string
  expirationTime :: int
  revocable :: bool
  refUID :: string
  data :: string
  "value" :: int

record AttestationRequest =
  schema :: string
  data :: AttestationRequestData

record RevocationRequestData =
  uid :: string
  "value" :: int

record RevocationRequest =
  schema :: string
  data :: RevocationRequestData

text \<open>The contract client: each member is the outcome of the call on the ledger.\<close>

record EAS =
  getAttestation :: "string \<Rightarrow> exn + EASAttestation option"
  attest :: "AttestationRequest \<Rightarrow> exn + EASTransaction"
  revoke :: "RevocationRequest \<Rightarrow> exn + EASTransaction"
  getSchemaRegistry :: "exn + EASSchemaRegistry"

record IssueAttestationInput =
  network :: network
  recipient :: string
  schema :: string
  data :: string
  expirationTime :: "number option"
  revocable :: "bool option"
  refUID :: "string option"
  "value" :: "string option"

record VerifyAttestationInput =
  network :: network
  uid :: string

record ListAttestationsInput =
  network :: network
  recipient :: "string option"
  attester :: "string option"
  schema :: "string option"
  limit :: "number option"

record CreateSchemaInput =
  network :: network
  schema :: string
  resolverAddress :: "string option"
  revocable :: bool

record RevokeAttestationInput =
  network :: network
  uid :: string

record WriteResult =
  uid :: string
  txHash :: string

record RevokeResult =
  txHash :: string

record AttestationData =
  uid :: string
  schema :: string
  recipient :: string
  attester :: string
  revocable :: bool
  refUID :: string
  data :: string
  time :: number
  expirationTime :: number
  revocationTime :: number

text \<open>
  The payload of a successful \<open>verify\<close> tool call: the object spread
  \<open>{...attestation, isValid, isRevoked, isExpired}\<close> is the record extended.
\<close>

record VerifiedAttestation = AttestationData +
  isValid :: bool
  isRevoked :: bool
  isExpired :: bool

record VerifyToolResult =
  success :: bool
  message :: string
  data :: "VerifiedAttestation option"

section \<open>The index client (\<open>GraphQLService\<close>)\<close>

text \<open>
  Logging (\<open>devLog\<close>) has no effect on results and is left out. \<open>fetch\<close> is a parameter:
  given the endpoint and the request body it gives the reply, or the value it rejects
  with (a transport failure, or the abort of the request by the 30 second timer). The
  body is the object before \<open>JSON.stringify\<close>.
\<close>

definition getGraphQLEndpoint :: "Env \<Rightarrow> NetworkConfig \<Rightarrow> string" where
  "getGraphQLEndpoint env config =
     (if name config = testnet
      then or_else (GRAPHQL_ENDPOINT_TESTNET env) ''https://easscan-testnet.rootstock.io/graphql''
      else or_else (GRAPHQL_ENDPOINT_MAINNET env) ''https://easscan.rootstock.io/graphql'')"

text \<open>The query document of \<open>queryAttestations\<close>: the template with its interpolations.\<close>

definition attestationsQuery :: "Filters \<Rightarrow> string" where
  "attestationsQuery filters =
     ''
        query GetAttestations($recipient: String, $attester: String, $schema: String, $limit: Int) {
          attestations(
            where: {
              '' @
     (if truthy (Filters.recipient filters) then ''recipient: $recipient,'' else []) @
     ''
              '' @
     (if truthy (Filters.attester filters) then ''attester: $attester,'' else []) @
     ''
              '' @
     (if truthy (Filters.schema filters) then ''schemaId: $schema,'' else []) @
     ''
            }
            first: $limit
            orderBy: timeCreated
            orderDirection: desc
          ) {
            id
            attester
            recipient
            revoked
            revocable
            refUID
            data
            timeCreated
            expirationTime
            revocationTime
            schema {
              id
            }
          }
        }
      ''"

definition attestationsVariables :: "Filters \<Rightarrow> Variables" where
  "attestationsVariables filters =
     \<lparr>Variables.recipient = Filters.recipient filters,
      Variables.attester = Filters.attester filters,
      Variables.schema = Filters.schema filters,
      Variables.limit =
        (case Filters.limit filters of
           Some n \<Rightarrow> if truthy_number n then n else Number 10
         | None \<Rightarrow> Number 10)\<rparr>"

text \<open>The object \<open>{ query, variables }\<close> that \<open>queryAttestations\<close> posts.\<close>

definition attestationsBody :: "Filters \<Rightarrow> QueryBody" where
  "attestationsBody filters =
     \<lparr>QueryBody.query = attestationsQuery filters,
      QueryBody.variables = attestationsVariables filters\<rparr>"

text \<open>The query document of \<open>queryAttestationsByUID\<close>.\<close>

definition attestationQuery :: string where
  "attestationQuery =
     ''
        query GetAttestation($uid: String!) {
          attestation(id: $uid) {
            id
            attester
            recipient
            revoked
            revocable
            refUID
            data
            timeCreated
            expirationTime
            revocationTime
            schema {
              id
            }
          }
        }
      ''"

text \<open>The object \<open>{ query, variables: { uid } }\<close> that \<open>queryAttestationsByUID\<close> posts.\<close>

definition attestationBody :: "string \<Rightarrow> UidQueryBody" where
  "attestationBody uid' =
     \<lparr>UidQueryBody.query = attestationQuery,
      UidQueryBody.variables = \<lparr>UidVariables.uid = uid'\<rparr>\<rparr>"

text \<open>
  The conversion of one wire record, written out twice in the source (in the callback of
  \<open>map\<close> in \<open>queryAttestations\<close> and in \<open>queryAttestationsByUID\<close>) with the same text.
\<close>

definition transformAttestation :: "GraphQLAttestation \<Rightarrow> exn + AttestationData" where
  "transformAttestation gqlAttestation =
     (let timeCreated' = parseInt10 (timeCreated gqlAttestation);
          expirationTime' = parseInt10 (GraphQLAttestation.expirationTime gqlAttestation);
          revocationTime' = parseInt10 (GraphQLAttestation.revocationTime gqlAttestation)
      in if isNaN timeCreated' \<or> isNaN expirationTime' \<or> isNaN revocationTime'
         then Inl (Error (''Invalid time value in attestation data for UID '' @
                          GraphQLAttestation.id' gqlAttestation))
         else Inr
           \<lparr>AttestationData.uid = GraphQLAttestation.id' gqlAttestation,
            AttestationData.schema = GraphQLSchemaRef.id' (GraphQLAttestation.schema gqlAttestation),
            AttestationData.recipient = GraphQLAttestation.recipient gqlAttestation,
            AttestationData.attester = GraphQLAttestation.attester gqlAttestation,
            AttestationData.revocable = GraphQLAttestation.revocable gqlAttestation,
            AttestationData.refUID = GraphQLAttestation.refUID gqlAttestation,
            AttestationData.data = GraphQLAttestation.data gqlAttestation,
            AttestationData.time =
              (if num_le timeCreated' (Number MAX_SAFE_INTEGER)
               then timeCreated' else Number MAX_SAFE_INTEGER),
            AttestationData.expirationTime =
              (if num_le expirationTime' (Number MAX_SAFE_INTEGER)
               then expirationTime' else Number MAX_SAFE_INTEGER),
            AttestationData.revocationTime =
              (if num_le revocationTime' (Number MAX_SAFE_INTEGER)
               then revocationTime' else Number MAX_SAFE_INTEGER)\<rparr>)"

text \<open>\<open>xs.map(f)\<close> with a callback that may throw: the first throw ends the loop.\<close>

fun mapE :: "('a \<Rightarrow> exn + 'b) \<Rightarrow> 'a list \<Rightarrow> exn + 'b list" where
  "mapE f [] = Inr []"
| "mapE f (x # xs) =
     (case f x of
        Inl e \<Rightarrow> Inl e
      | Inr y \<Rightarrow> (case mapE f xs of Inl e \<Rightarrow> Inl e | Inr ys \<Rightarrow> Inr (y # ys)))"

text \<open>The body of the outer \<open>try\<close> of \<open>queryAttestations\<close>.\<close>

definition queryAttestations_try ::
  "Env \<Rightarrow> (string \<Rightarrow> QueryBody \<Rightarrow> exn + GraphQLData GraphQLResponse Response) \<Rightarrow>
   NetworkConfig \<Rightarrow> Filters \<Rightarrow> exn + AttestationData list" where
  "queryAttestations_try env fetch config filters =
     (let endpoint = getGraphQLEndpoint env config
      in (case fetch endpoint (attestationsBody filters) of
            Inl e \<Rightarrow> Inl e
          | Inr httpResponse \<Rightarrow>
              (if \<not> ok httpResponse
               then Inl (Error (''HTTP '' @ decimal (status httpResponse) @ '': '' @
                                statusText httpResponse))
               else (case json httpResponse of
                       Inl e \<Rightarrow> Inl e
                     | Inr response \<Rightarrow>
                         (case errors response of
                            Some es \<Rightarrow>
                              Inl (Error (''GraphQL errors: '' @
                                          join '', '' (map GraphQLError.message es)))
                          | None \<Rightarrow>
                              (case GraphQLResponse.data response of
                                 None \<Rightarrow> Inl (Error ''No data returned from GraphQL query'')
                               | Some d \<Rightarrow> mapE transformAttestation (attestations d)))))))"

definition queryAttestations ::
  "Env \<Rightarrow> (string \<Rightarrow> QueryBody \<Rightarrow> exn + GraphQLData GraphQLResponse Response) \<Rightarrow>
   NetworkConfig \<Rightarrow> Filters \<Rightarrow> exn + AttestationData list" where
  "queryAttestations env fetch config filters =
     (case queryAttestations_try env fetch config filters of
        Inl error \<Rightarrow>
          Inl (Error (''GraphQL query failed: '' @ errorMessage ''Unknown GraphQL error'' error))
      | Inr attestations' \<Rightarrow> Inr attestations')"

text \<open>The body of the outer \<open>try\<close> of \<open>queryAttestationsByUID\<close>.\<close>

definition queryAttestationsByUID_try ::
  "Env \<Rightarrow> (string \<Rightarrow> UidQueryBody \<Rightarrow> exn + GraphQLSingleData GraphQLResponse Response) \<Rightarrow>
   NetworkConfig \<Rightarrow> string \<Rightarrow> exn + AttestationData option" where
  "queryAttestationsByUID_try env fetch config uid' =
     (let endpoint = getGraphQLEndpoint env config
      in (case fetch endpoint (attestationBody uid') of
            Inl e \<Rightarrow> Inl e
          | Inr httpResponse \<Rightarrow>
              (if \<not> ok httpResponse
               then Inl (Error (''HTTP '' @ decimal (status httpResponse) @ '': '' @
                                statusText httpResponse))
               else (case json httpResponse of
                       Inl e \<Rightarrow> Inl e
                     | Inr response \<Rightarrow>
                         (case GraphQLResponse.data response of
                            None \<Rightarrow> Inr None
                          | Some d \<Rightarrow>
                              (case attestation d of
                                 None \<Rightarrow> Inr None
                               | Some gqlAttestation \<Rightarrow>
                                   (case transformAttestation gqlAttestation of
                                      Inl e \<Rightarrow> Inl e
                                    | Inr a \<Rightarrow> Inr (Some a))))))))"

definition queryAttestationsByUID ::
  "Env \<Rightarrow> (string \<Rightarrow> UidQueryBody \<Rightarrow> exn + GraphQLSingleData GraphQLResponse Response) \<Rightarrow>
   NetworkConfig \<Rightarrow> string \<Rightarrow> exn + AttestationData option" where
  "queryAttestationsByUID env fetch config uid' =
     (case queryAttestationsByUID_try env fetch config uid' of
        Inl error \<Rightarrow>
          Inl (Error (''GraphQL attestation query failed: '' @
                      errorMessage ''Unknown GraphQL error'' error))
      | Inr r \<Rightarrow> Inr r)"

section \<open>The orchestrator (\<open>AttestationService\<close>)\<close>

definition ZERO_UID :: string where
  "ZERO_UID = ''0x0000000000000000000000000000000000000000000000000000000000000000''"

definition ZERO_ADDRESS :: string where
  "ZERO_ADDRESS = ''0x0000000000000000000000000000000000000000''"

text \<open>
  \<open>BigInt(n)\<close> for a number: the integer itself, a \<open>RangeError\<close> for \<open>NaN\<close> and the
  infinities (the message is the engine's).
\<close>

fun BigInt_number :: "number \<Rightarrow> exn + int" where
  "BigInt_number (Number i) = Inr i"
| "BigInt_number NaN =
     Inl (Error ''The number NaN cannot be converted to a BigInt because it is not an integer'')"
| "BigInt_number PosInfinity =
     Inl (Error ''The number Infinity cannot be converted to a BigInt because it is not an integer'')"
| "BigInt_number NegInfinity =
     Inl (Error ''The number -Infinity cannot be converted to a BigInt because it is not an integer'')"

text \<open>
  The object literal \<open>attestation\<close> at the head of \<open>issueAttestation\<close>; building it
  throws when a \<open>BigInt\<close> conversion does. \<open>BigInt\<close> applied to a string is a parameter
  (\<open>BigInt_string\<close>): the integer the string denotes, or a \<open>SyntaxError\<close>.
\<close>

definition attestationRequest ::
  "(string \<Rightarrow> exn + int) \<Rightarrow> IssueAttestationInput \<Rightarrow> exn + AttestationRequest" where
  "attestationRequest BigInt_string input =
     (case BigInt_number
             (case IssueAttestationInput.expirationTime input of
                Some n \<Rightarrow> if truthy_number n then n else Number 0
              | None \<Rightarrow> Number 0) of
        Inl e \<Rightarrow> Inl e
      | Inr expirationTime' \<Rightarrow>
          (case (case IssueAttestationInput.value input of
                   Some v \<Rightarrow> if v \<noteq> [] then BigInt_string v else BigInt_number (Number 0)
                 | None \<Rightarrow> BigInt_number (Number 0)) of
             Inl e \<Rightarrow> Inl e
           | Inr value' \<Rightarrow>
               Inr \<lparr>AttestationRequest.schema = IssueAttestationInput.schema input,
                    AttestationRequest.data =
                      \<lparr>AttestationRequestData.recipient = IssueAttestationInput.recipient input,
                       AttestationRequestData.expirationTime = expirationTime',
                       AttestationRequestData.revocable =
                         (case IssueAttestationInput.revocable input of
                            Some b \<Rightarrow> b
                          | None \<Rightarrow> True),
                       AttestationRequestData.refUID =
                         or_else (IssueAttestationInput.refUID input) ZERO_UID,
                       AttestationRequestData.data = IssueAttestationInput.data input,
                       AttestationRequestData.value = value'\<rparr>\<rparr>))"

text \<open>The body of the \<open>try\<close> of \<open>issueAttestation\<close>.\<close>

definition issueAttestation_try ::
  "(string \<Rightarrow> exn + int) \<Rightarrow> EAS \<Rightarrow> IssueAttestationInput \<Rightarrow> exn + WriteResult" where
  "issueAttestation_try BigInt_string eas input =
     (case attestationRequest BigInt_string input of
        Inl e \<Rightarrow> Inl e
      | Inr attestation' \<Rightarrow>
          (case attest eas attestation' of
             Inl e \<Rightarrow> Inl e
           | Inr tx \<Rightarrow>
               (let txHash' = or_else (hash tx) ''unknown''
                in (case wait tx of
                      Inl e \<Rightarrow> Inl e
                    | Inr receipt \<Rightarrow>
                        (case getAttestationUID tx of
                           None \<Rightarrow>
                             Inr \<lparr>WriteResult.uid = or_else None ''unknown'',
                                  WriteResult.txHash = txHash'\<rparr>
                         | Some (Inl e) \<Rightarrow> Inl e
                         | Some (Inr uid') \<Rightarrow>
                             Inr \<lparr>WriteResult.uid = or_else uid' ''unknown'',
                                  WriteResult.txHash = txHash'\<rparr>)))))"

definition issueAttestation ::
  "(string \<Rightarrow> exn + int) \<Rightarrow> EAS \<Rightarrow> IssueAttestationInput \<Rightarrow> exn + WriteResult" where
  "issueAttestation BigInt_string eas input =
     (case issueAttestation_try BigInt_string eas input of
        Inl error \<Rightarrow>
          Inl (Error (''Failed to issue attestation: '' @
                      errorMessage ''Unknown error occurred'' error))
      | Inr r \<Rightarrow> Inr r)"

text \<open>The body of the \<open>try\<close> of \<open>verifyAttestation\<close>.\<close>

definition verifyAttestation_try ::
  "EAS \<Rightarrow> VerifyAttestationInput \<Rightarrow> exn + AttestationData option" where
  "verifyAttestation_try eas input =
     (case getAttestation eas (VerifyAttestationInput.uid input) of
        Inl e \<Rightarrow> Inl e
      | Inr None \<Rightarrow> Inr None
      | Inr (Some attestation') \<Rightarrow>
          (if EASAttestation.uid attestation' = ZERO_UID then Inr None
           else Inr (Some
             \<lparr>AttestationData.uid = EASAttestation.uid attestation',
              AttestationData.schema = EASAttestation.schema attestation',
              AttestationData.recipient = EASAttestation.recipient attestation',
              AttestationData.attester = EASAttestation.attester attestation',
              AttestationData.revocable = EASAttestation.revocable attestation',
              AttestationData.refUID = EASAttestation.refUID attestation',
              AttestationData.data = EASAttestation.data attestation',
              AttestationData.time =
                (if EASAttestation.time attestation' \<le> MAX_SAFE_INTEGER
                 then toNumber (EASAttestation.time attestation')
                 else Number MAX_SAFE_INTEGER),
              AttestationData.expirationTime =
                (if EASAttestation.expirationTime attestation' \<le> MAX_SAFE_INTEGER
                 then toNumber (EASAttestation.expirationTime attestation')
                 else Number MAX_SAFE_INTEGER),
              AttestationData.revocationTime =
                (if EASAttestation.revocationTime attestation' \<le> MAX_SAFE_INTEGER
                 then toNumber (EASAttestation.revocationTime attestation')
                 else Number MAX_SAFE_INTEGER)\<rparr>)))"

definition verifyAttestation ::
  "EAS \<Rightarrow> VerifyAttestationInput \<Rightarrow> exn + AttestationData option" where
  "verifyAttestation eas input =
     (case verifyAttestation_try eas input of
        Inl error \<Rightarrow>
          Inl (Error (''Failed to verify attestation: '' @
                      errorMessage ''Unknown error occurred'' error))
      | Inr r \<Rightarrow> Inr r)"

text \<open>\<open>listAttestations\<close> hands the four filters to the index client.\<close>

definition listAttestations ::
  "Env \<Rightarrow> (string \<Rightarrow> QueryBody \<Rightarrow> exn + GraphQLData GraphQLResponse Response) \<Rightarrow>
   NetworkConfig \<Rightarrow> ListAttestationsInput \<Rightarrow> exn + AttestationData list" where
  "listAttestations env fetch config input =
     (case queryAttestations env fetch config
             \<lparr>Filters.recipient = ListAttestationsInput.recipient input,
              Filters.attester = ListAttestationsInput.attester input,
              Filters.schema = ListAttestationsInput.schema input,
              Filters.limit = ListAttestationsInput.limit input\<rparr> of
        Inl error \<Rightarrow>
          Inl (Error (''Failed to list attestations: '' @
                      errorMessage ''Unknown error occurred'' error))
      | Inr attestations' \<Rightarrow> Inr attestations')"

text \<open>The body of the \<open>try\<close> of \<open>createSchema\<close>.\<close>

definition createSchema_try :: "EAS \<Rightarrow> CreateSchemaInput \<Rightarrow> exn + WriteResult" where
  "createSchema_try eas input =
     (case getSchemaRegistry eas of
        Inl e \<Rightarrow> Inl e
      | Inr schemaRegistry' \<Rightarrow>
          (case register schemaRegistry'
                  (CreateSchemaInput.schema input)
                  (or_else (resolverAddress input) ZERO_ADDRESS)
                  (CreateSchemaInput.revocable input) of
             Inl e \<Rightarrow> Inl e
           | Inr tx \<Rightarrow>
               (let schemaTxHash = or_else (hash tx) ''unknown''
                in (case wait tx of
                      Inl e \<Rightarrow> Inl e
                    | Inr receipt \<Rightarrow>
                        (case getSchemaUID tx of
                           None \<Rightarrow>
                             Inr \<lparr>WriteResult.uid = or_else None ''unknown'',
                                  WriteResult.txHash = schemaTxHash\<rparr>
                         | Some (Inl e) \<Rightarrow> Inl e
                         | Some (Inr uid') \<Rightarrow>
                             Inr \<lparr>WriteResult.uid = or_else uid' ''unknown'',
                                  WriteResult.txHash = schemaTxHash\<rparr>)))))"

definition createSchema :: "EAS \<Rightarrow> CreateSchemaInput \<Rightarrow> exn + WriteResult" where
  "createSchema eas input =
     (case createSchema_try eas input of
        Inl error \<Rightarrow>
          Inl (Error (''Failed to create schema: '' @
                      errorMessage ''Unknown error occurred'' error))
      | Inr r \<Rightarrow> Inr r)"

text \<open>
  \<open>revokeAttestation\<close> makes up to three calls on the ledger, in this order. The model
  returns the calls made next to the result, so that what a failed call did is visible.
\<close>

datatype ledger_call =
  CallGetAttestation string
| CallRevoke RevocationRequest
| CallWait

definition revokeAttestation_try ::
  "EAS \<Rightarrow> RevokeAttestationInput \<Rightarrow> (exn + RevokeResult) \<times> ledger_call list" where
  "revokeAttestation_try eas input =
     (let uid' = RevokeAttestationInput.uid input;
          notFound = Inl (Error (''Attestation '' @ uid' @ '' not found''))
      in (case getAttestation eas uid' of
            Inl e \<Rightarrow> (Inl e, [CallGetAttestation uid'])
          | Inr None \<Rightarrow> (notFound, [CallGetAttestation uid'])
          | Inr (Some attestation') \<Rightarrow>
              (if EASAttestation.uid attestation' = ZERO_UID
               then (notFound, [CallGetAttestation uid'])
               else (let request =
                           \<lparr>RevocationRequest.schema = EASAttestation.schema attestation',
                            RevocationRequest.data =
                              \<lparr>RevocationRequestData.uid = uid',
                               RevocationRequestData.value = 0\<rparr>\<rparr>
                     in (case revoke eas request of
                           Inl e \<Rightarrow> (Inl e, [CallGetAttestation uid', CallRevoke request])
                         | Inr tx \<Rightarrow>
                             (let revokeTxHash = or_else (hash tx) ''unknown''
                              in (case wait tx of
                                    Inl e \<Rightarrow>
                                      (Inl e,
                                       [CallGetAttestation uid', CallRevoke request, CallWait])
                                  | Inr receipt \<Rightarrow>
                                      (Inr \<lparr>RevokeResult.txHash = revokeTxHash\<rparr>,
                                       [CallGetAttestation uid', CallRevoke request,
                                        CallWait]))))))))"

definition revokeAttestation ::
  "EAS \<Rightarrow> RevokeAttestationInput \<Rightarrow> (exn + RevokeResult) \<times> ledger_call list" where
  "revokeAttestation eas input =
     (case revokeAttestation_try eas input of
        (Inl error, calls) \<Rightarrow>
          (Inl (Error (''Failed to revoke attestation: '' @
                       errorMessage ''Unknown error occurred'' error)), calls)
      | (Inr r, calls) \<Rightarrow> (Inr r, calls))"

section \<open>The tool handler (\<open>handleVerifyAttestation\<close>)\<close>

text \<open>
  \<open>new AttestationService(args.network)\<close> is a parameter: it gives the contract client,
  or throws (no signing key). \<open>Date_now\<close> is the value of \<open>Date.now()\<close>, in milliseconds;
  \<open>Math.floor(Date.now() / 1000)\<close> is its integer quotient by 1000, rounded down (the
  double division followed by the floor gives this quotient for every time value a
  \<open>Date\<close> can hold).
\<close>

definition handleVerifyAttestation ::
  "(network \<Rightarrow> exn + EAS) \<Rightarrow> int \<Rightarrow> VerifyAttestationInput \<Rightarrow> VerifyToolResult" where
  "handleVerifyAttestation newAttestationService Date_now args =
     (case (case newAttestationService (VerifyAttestationInput.network args) of
              Inl e \<Rightarrow> Inl e
            | Inr service \<Rightarrow> verifyAttestation service args) of
        Inl error \<Rightarrow>
          \<lparr>success = False,
           message = ''Failed to verify attestation: '' @
                     errorMessage ''Unknown error occurred'' error,
           data = None\<rparr>
      | Inr None \<Rightarrow>
          \<lparr>success = False, message = ''Attestation not found'', data = None\<rparr>
      | Inr (Some attestation') \<Rightarrow>
          (let isValid' = (AttestationData.revocationTime attestation' = Number 0);
               isExpired' =
                 (num_lt (Number 0) (AttestationData.expirationTime attestation') \<and>
                  num_lt (AttestationData.expirationTime attestation')
                         (Number (Date_now div 1000)))
           in \<lparr>success = True,
               message = ''Attestation '' @
                 (if isValid' \<and> \<not> isExpired' then ''is valid'' else ''is invalid/expired''),
               data = Some (AttestationData.extend attestation'
                 (VerifiedAttestation.fields
                    (isValid' \<and> \<not> isExpired')
                    (num_lt (Number 0) (AttestationData.revocationTime attestation'))
                    isExpired'))\<rparr>))"

section \<open>Fixtures\<close>

text \<open>
  Concrete collaborators in the manner of the mocks of the test suite: a ledger holding
  one record (or none) whose writes resolve to a given transaction, and an index service
  giving one fixed reply.
\<close>

definition mockRecord :: "string \<Rightarrow> int \<Rightarrow> int \<Rightarrow> int \<Rightarrow> EASAttestation" where
  "mockRecord uid' time' expirationTime' revocationTime' =
     \<lparr>EASAttestation.uid = uid',
      EASAttestation.schema = ''0xmockschema'',
      EASAttestation.recipient = ''0x1234567890123456789012345678901234567890'',
      EASAttestation.attester = ''0x0987654321098765432109876543210987654321'',
      EASAttestation.revocable = True,
      EASAttestation.refUID = ZERO_UID,
      EASAttestation.data = ''0xmockdata'',
      EASAttestation.time = time',
      EASAttestation.expirationTime = expirationTime',
      EASAttestation.revocationTime = revocationTime'\<rparr>"

definition mockTransaction :: "(exn + string option) option \<Rightarrow> EASTransaction" where
  "mockTransaction derivation =
     \<lparr>hash = Some ''0xmocktxhash'',
      wait = Inr (),
      getAttestationUID = derivation,
      getSchemaUID = derivation\<rparr>"

definition mockEAS :: "EASAttestation option \<Rightarrow> EASTransaction \<Rightarrow> EAS" where
  "mockEAS stored tx =
     \<lparr>getAttestation = (\<lambda>uid'. Inr stored),
      attest = (\<lambda>request. Inr tx),
      revoke = (\<lambda>request. Inr tx),
      getSchemaRegistry = Inr \<lparr>register = (\<lambda>schema' resolver revocable'. Inr tx)\<rparr>\<rparr>"

definition mockService :: "EAS \<Rightarrow> network \<Rightarrow> exn + EAS" where
  "mockService eas network' = Inr eas"

definition mockVerifyInput :: VerifyAttestationInput where
  "mockVerifyInput = \<lparr>VerifyAttestationInput.network = testnet,
                      VerifyAttestationInput.uid = ''0xmockattestationuid''\<rparr>"

definition mockRevokeInput :: RevokeAttestationInput where
  "mockRevokeInput = \<lparr>RevokeAttestationInput.network = testnet,
                      RevokeAttestationInput.uid = ''0xnonexistent''\<rparr>"

definition mockIssueInput :: IssueAttestationInput where
  "mockIssueInput =
     \<lparr>IssueAttestationInput.network = testnet,
      IssueAttestationInput.recipient = ''0x1234567890123456789012345678901234567890'',
      IssueAttestationInput.schema = ''0xmockschema'',
      IssueAttestationInput.data = ''0xmockdata'',
      IssueAttestationInput.expirationTime = None,
      IssueAttestationInput.revocable = None,
      IssueAttestationInput.refUID = None,
      IssueAttestationInput.value = None\<rparr>"

definition mockSchemaInput :: CreateSchemaInput where
  "mockSchemaInput =
     \<lparr>CreateSchemaInput.network = testnet,
      CreateSchemaInput.schema = ''string name,uint256 age'',
      resolverAddress = None,
      CreateSchemaInput.revocable = True\<rparr>"

definition mockBigInt :: "string \<Rightarrow> exn + int" where
  "mockBigInt s = Inl (Error ''Cannot convert to a BigInt'')"

definition mockConfig :: NetworkConfig where
  "mockConfig =
     \<lparr>name = testnet,
      rpcUrl = ''https://rpc.testnet.rootstock.io'',
      rasContract = ''0xc300aeEadd60999933468738c9F5d7e9c0671e1C'',
      schemaRegistry = ''0x679c62956cD2801ABaBF80e9D430F18859eea2D5''\<rparr>"

definition mockEnv :: Env where
  "mockEnv = \<lparr>GRAPHQL_ENDPOINT_TESTNET = None, GRAPHQL_ENDPOINT_MAINNET = None\<rparr>"

definition mockWire :: "string \<Rightarrow> string \<Rightarrow> string \<Rightarrow> string \<Rightarrow> GraphQLAttestation" where
  "mockWire uid' timeCreated' expirationTime' revocationTime' =
     \<lparr>GraphQLAttestation.id' = uid',
      GraphQLAttestation.attester = ''0x0987654321098765432109876543210987654321'',
      GraphQLAttestation.recipient = ''0x1234567890123456789012345678901234567890'',
      revoked = False,
      GraphQLAttestation.revocable = True,
      GraphQLAttestation.refUID = ZERO_UID,
      GraphQLAttestation.data = ''0xmockdata'',
      timeCreated = timeCreated',
      GraphQLAttestation.expirationTime = expirationTime',
      GraphQLAttestation.revocationTime = revocationTime',
      GraphQLAttestation.schema = \<lparr>GraphQLSchemaRef.id' = ''0xmockschema''\<rparr>\<rparr>"

definition mockReply :: "'d option \<Rightarrow> GraphQLError list option \<Rightarrow> 'd GraphQLResponse Response" where
  "mockReply d es =
     \<lparr>ok = True, status = 200, statusText = ''OK'',
      json = Inr \<lparr>GraphQLResponse.data = d, errors = es\<rparr>\<rparr>"

definition mockFetch :: "'r \<Rightarrow> string \<Rightarrow> 'q \<Rightarrow> exn + 'r" where
  "mockFetch reply endpoint body = Inr reply"

text \<open>An index service that answers only a request whose limit is \<open>n\<close>.\<close>

definition mockFetchLimit :: "number \<Rightarrow> 'r \<Rightarrow> string \<Rightarrow> QueryBody \<Rightarrow> exn + 'r" where
  "mockFetchLimit n reply endpoint body =
     (if Variables.limit (QueryBody.variables body) = n then Inr reply
      else Inl (Error ''unexpected limit''))"

definition mockListInput :: "number option \<Rightarrow> ListAttestationsInput" where
  "mockListInput limit' =
     \<lparr>ListAttestationsInput.network = testnet,
      ListAttestationsInput.recipient = None,
      ListAttestationsInput.attester = None,
      ListAttestationsInput.schema = None,
      ListAttestationsInput.limit = limit'\<rparr>"

definition mockFilters :: "string option \<Rightarrow> number option \<Rightarrow> Filters" where
  "mockFilters recipient' limit' =
     \<lparr>Filters.recipient = recipient', Filters.attester = None,
      Filters.schema = None, Filters.limit = limit'\<rparr>"

section \<open>Notions used by the statements\<close>

text \<open>
  The normalisation policy in the words of the specification (section 4.1): a timestamp
  up to the maximum safe integer is returned unchanged, a larger one is replaced by the
  maximum safe integer. The source has no function of this name; it writes the
  conditional out at each of the timestamp fields.
\<close>

definition normalize_spec :: "int \<Rightarrow> int" where
  "normalize_spec t = (if t \<le> MAX_SAFE_INTEGER then t else MAX_SAFE_INTEGER)"

text \<open>
  The request body that carries the filters as they are and the limit \<open>n\<close>, and the
  filters that \<open>listAttestations\<close> makes of its input.
\<close>

definition bodyWithLimit :: "number \<Rightarrow> Filters \<Rightarrow> QueryBody" where
  "bodyWithLimit n filters =
     \<lparr>QueryBody.query = attestationsQuery filters,
      QueryBody.variables =
        \<lparr>Variables.recipient = Filters.recipient filters,
         Variables.attester = Filters.attester filters,
         Variables.schema = Filters.schema filters,
         Variables.limit = n\<rparr>\<rparr>"

definition listFilters :: "ListAttestationsInput \<Rightarrow> Filters" where
  "listFilters input =
     \<lparr>Filters.recipient = ListAttestationsInput.recipient input,
      Filters.attester = ListAttestationsInput.attester input,
      Filters.schema = ListAttestationsInput.schema input,
      Filters.limit = ListAttestationsInput.limit input\<rparr>"

text \<open>A wire string that is a decimal numeral, and the integer it denotes.\<close>

definition isNumeral :: "string \<Rightarrow> bool" where
  "isNumeral s = (s \<noteq> [] \<and> list_all isDigit s)"

definition numeralValue :: "string \<Rightarrow> int" where
  "numeralValue s = int (digitsValue s)"

text \<open>A wire record whose three timestamps are decimal numerals.\<close>

definition numericWire :: "GraphQLAttestation \<Rightarrow> bool" where
  "numericWire g =
     (isNumeral (timeCreated g) \<and>
      isNumeral (GraphQLAttestation.expirationTime g) \<and>
      isNumeral (GraphQLAttestation.revocationTime g))"

text \<open>
  The three timestamps of a returned record are the normalised values of the creation,
  expiration and revocation timestamps \<open>t\<close>, \<open>e\<close> and \<open>r\<close>.
\<close>

definition normalizedFrom :: "int \<Rightarrow> int \<Rightarrow> int \<Rightarrow> AttestationData \<Rightarrow> bool" where
  "normalizedFrom t e r a =
     (AttestationData.time a = Number (normalize_spec t) \<and>
      AttestationData.expirationTime a = Number (normalize_spec e) \<and>
      AttestationData.revocationTime a = Number (normalize_spec r))"



text \<open>
  The derivation of an identifier from a transaction gave nothing: the method is missing,
  or it resolved to \<open>undefined\<close> or to the empty string.
\<close>

definition noIdentifier :: "(exn + string option) option \<Rightarrow> bool" where
  "noIdentifier derivation =
     (case derivation of
        None \<Rightarrow> True
      | Some (Inr uid') \<Rightarrow> \<not> truthy uid'
      | Some (Inl e) \<Rightarrow> False)"

section \<open>Facts about the runtime model\<close>

lemma bitLength_lower: "0 < n \<Longrightarrow> 2 ^ (bitLength n - 1) \<le> n"
proof (induction n rule: bitLength.induct)
  case (1 n)
  show ?case
  proof (cases "n div 2 = 0")
    case True
    with "1.prems" have "n = 1" by presburger
    then show ?thesis by (simp add: bitLength.simps [of "Suc 0"] bitLength.simps [of 0])
  next
    case False
    then have pos: "0 < n div 2" by simp
    with "1.IH" "1.prems" have ih: "2 ^ (bitLength (n div 2) - 1) \<le> n div 2" by simp
    from pos have bl: "0 < bitLength (n div 2)" by (simp add: bitLength.simps [of "n div 2"])
    have "bitLength n = Suc (bitLength (n div 2))"
      using "1.prems" by (simp add: bitLength.simps [of n])
    then have "(2::nat) ^ (bitLength n - 1) = 2 * 2 ^ (bitLength (n div 2) - 1)"
      using bl by (cases "bitLength (n div 2)") simp_all
    also have "\<dots> \<le> 2 * (n div 2)" using ih by simp
    also have "\<dots> \<le> n" by simp
    finally show ?thesis .
  qed
qed

lemma bitLength_upper: "n < 2 ^ bitLength n"
proof (induction n rule: bitLength.induct)
  case (1 n)
  show ?case
  proof (cases "n = 0")
    case True
    then show ?thesis by simp
  next
    case False
    with "1.IH" have ih: "n div 2 < 2 ^ bitLength (n div 2)" by simp
    have "bitLength n = Suc (bitLength (n div 2))"
      using False by (simp add: bitLength.simps [of n])
    moreover have "n < 2 * 2 ^ bitLength (n div 2)" using ih by linarith
    ultimately show ?thesis by simp
  qed
qed

lemma bitLength_ge: "2 ^ k \<le> n \<Longrightarrow> k < bitLength n"
proof -
  assume "2 ^ k \<le> n"
  with bitLength_upper [of n] have "(2::nat) ^ k < 2 ^ bitLength n" by linarith
  then show ?thesis by (simp add: power_strict_increasing_iff)
qed

lemma roundToDouble_small: "n < 2 ^ 53 \<Longrightarrow> roundToDouble n = n"
  by (simp add: roundToDouble_def)

text \<open>Rounding never takes a number of 54 bits or more below \<open>2^53\<close>.\<close>

lemma roundToDouble_large:
  assumes "2 ^ 53 \<le> n"
  shows "2 ^ 53 \<le> roundToDouble n"
proof -
  define e where "e = bitLength n - 53"
  define q where "q = n div 2 ^ e"
  from assms have bl: "53 < bitLength n" by (rule bitLength_ge)
  then have e_pos: "0 < e" and bl_eq: "bitLength n - 1 = 52 + e"
    by (simp_all add: e_def)
  from assms have "0 < n" by (simp add: order.strict_trans2 [of 0 "2 ^ 53"])
  then have "2 ^ (bitLength n - 1) \<le> n" by (rule bitLength_lower)
  then have "2 ^ 52 * 2 ^ e \<le> n" by (simp only: bl_eq power_add)
  then have q_ge: "2 ^ 52 \<le> q"
    unfolding q_def by (simp add: less_eq_div_iff_mult_less_eq)
  have "(2::nat) ^ 53 = 2 ^ 52 * 2 ^ 1" by simp
  also have "\<dots> \<le> 2 ^ 52 * 2 ^ e"
    using e_pos by (intro mult_le_mono2 power_increasing) simp_all
  also have "\<dots> \<le> q * 2 ^ e" using q_ge by (rule mult_le_mono1)
  finally have base: "2 ^ 53 \<le> q * 2 ^ e" .
  have "q * 2 ^ e \<le> (q + 1) * 2 ^ e" by simp
  with base have "2 ^ 53 \<le> (q + 1) * 2 ^ e" by (rule order_trans)
  with base assms show ?thesis
    by (simp add: roundToDouble_def Let_def e_def [symmetric] q_def [symmetric] del: power_numeral)
qed

lemma toNumber_safe:
  assumes "0 \<le> i" "i \<le> MAX_SAFE_INTEGER"
  shows "toNumber i = Number i"
proof -
  from assms have small: "nat \<bar>i\<bar> < 2 ^ 53" by (simp add: MAX_SAFE_INTEGER_def)
  then have "roundToDouble (nat \<bar>i\<bar>) = nat \<bar>i\<bar>" by (rule roundToDouble_small)
  moreover have "nat \<bar>i\<bar> < 2 ^ 1024" using small by simp
  ultimately show ?thesis using assms by (simp add: toNumber_def Let_def)
qed

lemma toNumber_unsafe:
  assumes "MAX_SAFE_INTEGER < i"
  shows "\<not> num_le (toNumber i) (Number MAX_SAFE_INTEGER)"
proof -
  from assms have "2 ^ 53 \<le> nat \<bar>i\<bar>" by (simp add: MAX_SAFE_INTEGER_def)
  then have "2 ^ 53 \<le> roundToDouble (nat \<bar>i\<bar>)" by (rule roundToDouble_large)
  then have "MAX_SAFE_INTEGER < int (roundToDouble (nat \<bar>i\<bar>))"
    by (simp add: MAX_SAFE_INTEGER_def)
  moreover from assms have "\<not> i < 0" by (simp add: MAX_SAFE_INTEGER_def)
  ultimately show ?thesis by (simp add: toNumber_def Let_def)
qed

lemma of_char_digit: "d < 10 \<Longrightarrow> (of_char (char_of (48 + d :: nat)) :: nat) = 48 + d"
  by (simp add: of_char_of)

lemma isDigit_digit: "d < 10 \<Longrightarrow> isDigit (char_of (48 + d :: nat))"
  by (simp add: isDigit_def of_char_digit)

lemma digitValue_digit: "d < 10 \<Longrightarrow> digitValue (char_of (48 + d :: nat)) = d"
  by (simp add: digitValue_def of_char_digit)

lemma isDigit_not_special:
  "isDigit c \<Longrightarrow> \<not> isWhiteSpace c \<and> c \<noteq> CHR ''+'' \<and> c \<noteq> CHR ''-''"
  by (auto simp: isDigit_def isWhiteSpace_def)

lemma isDigit_not_wide:
  "isDigit a \<Longrightarrow> \<not> isWhiteSpace2 a b \<and> \<not> isWhiteSpace3 a b c"
  by (auto simp: isDigit_def isWhiteSpace2_def isWhiteSpace3_def)

text \<open>A string that starts with a digit has no leading white space.\<close>

lemma trimStart_digit: "isDigit a \<Longrightarrow> trimStart (a # s) = a # s"
proof (cases s)
  case Nil
  assume "isDigit a"
  with Nil show ?thesis by (simp add: isDigit_not_special)
next
  case (Cons b t)
  assume a: "isDigit a"
  show ?thesis
  proof (cases t)
    case Nil
    with Cons a show ?thesis by (simp add: isDigit_not_special isDigit_not_wide)
  next
    case (Cons c u)
    with \<open>s = b # t\<close> a show ?thesis by (simp add: isDigit_not_special isDigit_not_wide)
  qed
qed

lemma decimal_digits: "\<forall>c \<in> set (decimal n). isDigit c"
proof (induction n rule: decimal.induct)
  case (1 n)
  show ?case
  proof (cases "n < 10")
    case True
    then show ?thesis by (simp add: decimal.simps [of n] isDigit_digit)
  next
    case False
    with "1.IH" have "\<forall>c \<in> set (decimal (n div 10)). isDigit c" by simp
    with False show ?thesis by (simp add: decimal.simps [of n] isDigit_digit)
  qed
qed

lemma decimal_nonempty: "decimal n \<noteq> []"
  by (simp add: decimal.simps [of n])

lemma digitsValue_snoc: "digitsValue (ds @ [c]) = 10 * digitsValue ds + digitValue c"
  by (simp add: digitsValue_def)

lemma digitsValue_decimal: "digitsValue (decimal n) = n"
proof (induction n rule: decimal.induct)
  case (1 n)
  show ?case
  proof (cases "n < 10")
    case True
    then show ?thesis by (simp add: decimal.simps [of n] digitsValue_def digitValue_digit)
  next
    case False
    with "1.IH" have "digitsValue (decimal (n div 10)) = n div 10" by simp
    with False show ?thesis
      by (simp add: decimal.simps [of n] digitsValue_snoc digitValue_digit)
  qed
qed

lemma parseInt10_digits:
  assumes "ds \<noteq> []" "\<forall>c \<in> set ds. isDigit c"
  shows "parseInt10 ds = toNumber (int (digitsValue ds))"
proof -
  from assms obtain c cs where ds: "ds = c # cs" by (cases ds) auto
  with assms have c: "isDigit c" by simp
  then have special: "\<not> isWhiteSpace c" "c \<noteq> CHR ''+''" "c \<noteq> CHR ''-''"
    using isDigit_not_special by blast+
  have tw: "takeWhile isDigit ds = ds" using assms by (simp add: takeWhile_eq_all_conv)
  have dw: "trimStart ds = ds" using ds c by (simp add: trimStart_digit)
  show ?thesis
    unfolding parseInt10_def dw Let_def using special tw assms(1) by (simp add: ds)
qed

text \<open>Reading back the decimal numeral of \<open>n\<close> gives the double nearest to \<open>n\<close>.\<close>

lemma parseInt10_decimal: "parseInt10 (decimal n) = toNumber (int n)"
  using parseInt10_digits [OF decimal_nonempty decimal_digits, of n]
  by (simp add: digitsValue_decimal)

lemma toNumber_not_NaN: "\<not> isNaN (toNumber i)"
  by (simp add: toNumber_def Let_def)

text \<open>The conditional of the point read agrees with the policy on a non-negative bigint.\<close>

lemma clamp_point_read:
  "0 \<le> t \<Longrightarrow>
   (if t \<le> MAX_SAFE_INTEGER then toNumber t else Number MAX_SAFE_INTEGER) = Number (normalize_spec t)"
  by (simp add: normalize_spec_def toNumber_safe)

lemma parseInt10_numeral: "isNumeral s \<Longrightarrow> parseInt10 s = toNumber (numeralValue s)"
  by (simp add: isNumeral_def numeralValue_def list_all_iff parseInt10_digits)

text \<open>
  The conditional of the index client agrees with the policy on a decimal numeral: the
  double that \<open>parseInt\<close> gives is the integer itself up to the maximum safe integer, and
  is above it otherwise.
\<close>

lemma clamp_index:
  assumes "isNumeral s"
  shows "\<not> isNaN (parseInt10 s)"
    and "(if num_le (parseInt10 s) (Number MAX_SAFE_INTEGER) then parseInt10 s
          else Number MAX_SAFE_INTEGER) = Number (normalize_spec (numeralValue s))"
proof -
  from assms have p: "parseInt10 s = toNumber (numeralValue s)" by (rule parseInt10_numeral)
  then show "\<not> isNaN (parseInt10 s)" by (simp add: toNumber_not_NaN)
  have nonneg: "0 \<le> numeralValue s" by (simp add: numeralValue_def)
  show "(if num_le (parseInt10 s) (Number MAX_SAFE_INTEGER) then parseInt10 s
          else Number MAX_SAFE_INTEGER) = Number (normalize_spec (numeralValue s))"
  proof (cases "numeralValue s \<le> MAX_SAFE_INTEGER")
    case True
    with nonneg have "toNumber (numeralValue s) = Number (numeralValue s)"
      by (simp add: toNumber_safe)
    with True p show ?thesis by (auto simp: normalize_spec_def)
  next
    case False
    then have "\<not> num_le (toNumber (numeralValue s)) (Number MAX_SAFE_INTEGER)"
      by (simp add: toNumber_unsafe)
    with False p show ?thesis by (simp add: normalize_spec_def)
  qed
qed


lemma or_else_falsy: "\<not> truthy x \<Longrightarrow> or_else x d = d"
  by (cases x) simp_all

lemma num_lt_zero_neq: "num_lt (Number 0) x \<Longrightarrow> x \<noteq> Number 0"
  by (cases x) simp_all

section \<open>Facts about the index client\<close>



lemma transformAttestation_numeric:
  assumes "numericWire g"
  shows "\<exists>a. transformAttestation g = Inr a \<and>
             normalizedFrom (numeralValue (timeCreated g))
               (numeralValue (GraphQLAttestation.expirationTime g))
               (numeralValue (GraphQLAttestation.revocationTime g)) a"
  using assms
  by (simp add: transformAttestation_def numericWire_def normalizedFrom_def Let_def clamp_index)


lemma mapE_all_ok:
  "\<forall>x \<in> set xs. \<exists>y. f x = Inr y \<and> P x y \<Longrightarrow> \<exists>ys. mapE f xs = Inr ys \<and> list_all2 P xs ys"
proof (induction xs)
  case Nil
  then show ?case by simp
next
  case (Cons x xs)
  then obtain y where y: "f x = Inr y" "P x y" by auto
  from Cons obtain ys where ys: "mapE f xs = Inr ys" "list_all2 P xs ys" by auto
  from y ys show ?case by simp
qed

text \<open>
  Each clause is in the query document exactly when its filter is truthy: the fixed text
  of the template contains none of the three clauses.
\<close>

lemma query_recipient_clause:
  "sublist ''recipient: $recipient,'' (attestationsQuery filters) \<longleftrightarrow>
   truthy (Filters.recipient filters)"
  by (cases "truthy (Filters.recipient filters)"; cases "truthy (Filters.attester filters)";
      cases "truthy (Filters.schema filters)")
     (simp_all add: attestationsQuery_def sublist_code(3))

lemma query_attester_clause:
  "sublist ''attester: $attester,'' (attestationsQuery filters) \<longleftrightarrow>
   truthy (Filters.attester filters)"
  by (cases "truthy (Filters.recipient filters)"; cases "truthy (Filters.attester filters)";
      cases "truthy (Filters.schema filters)")
     (simp_all add: attestationsQuery_def sublist_code(3))

lemma query_schema_clause:
  "sublist ''schemaId: $schema,'' (attestationsQuery filters) \<longleftrightarrow>
   truthy (Filters.schema filters)"
  by (cases "truthy (Filters.recipient filters)"; cases "truthy (Filters.attester filters)";
      cases "truthy (Filters.schema filters)")
     (simp_all add: attestationsQuery_def sublist_code(3))

section \<open>Derived validity state\<close>

text \<open>
  C1. When \<open>verifyAttestation\<close> finds a record, the handler returns that record extended
  with three flags: \<open>isExpired\<close> is \<open>expirationTime > 0 && expirationTime < now\<close>, where
  \<open>now\<close> is the clock in whole seconds; \<open>isRevoked\<close> is \<open>revocationTime > 0\<close>; \<open>isValid\<close>
  is \<open>revocationTime === 0\<close> and not expired. In particular a record with
  \<open>revocationTime > 0\<close> is reported invalid and revoked, whatever its expiration.
\<close>

theorem verify_derived_state:
  assumes "newAttestationService (VerifyAttestationInput.network args) = Inr eas"
    and "verifyAttestation eas args = Inr (Some a)"
  shows "\<exists>d. handleVerifyAttestation newAttestationService Date_now args =
           \<lparr>success = True,
            message = ''Attestation '' @ (if isValid d then ''is valid'' else ''is invalid/expired''),
            data = Some d\<rparr> \<and>
         AttestationData.truncate d = a \<and>
         isExpired d =
           (num_lt (Number 0) (AttestationData.expirationTime a) \<and>
            num_lt (AttestationData.expirationTime a) (Number (Date_now div 1000))) \<and>
         isRevoked d = num_lt (Number 0) (AttestationData.revocationTime a) \<and>
         isValid d = (AttestationData.revocationTime a = Number 0 \<and> \<not> isExpired d) \<and>
         (num_lt (Number 0) (AttestationData.revocationTime a) \<longrightarrow> \<not> isValid d \<and> isRevoked d)"
  using assms
  by (simp add: handleVerifyAttestation_def Let_def AttestationData.extend_def
      VerifiedAttestation.fields_def AttestationData.truncate_def num_lt_zero_neq)

text \<open>
  A record revoked at 1650000000 that never expires, verified at 1700000000 (clock in
  milliseconds): invalid, revoked, not expired.
\<close>

theorem verify_derived_state_witness:
  "success (handleVerifyAttestation
      (mockService (mockEAS (Some (mockRecord ''0xmockattestationuid'' 1640995200 0 1650000000))
                            (mockTransaction None)))
      1700000000000 mockVerifyInput) \<and>
   map_option isValid (VerifyToolResult.data (handleVerifyAttestation
      (mockService (mockEAS (Some (mockRecord ''0xmockattestationuid'' 1640995200 0 1650000000))
                            (mockTransaction None)))
      1700000000000 mockVerifyInput)) = Some False \<and>
   map_option isRevoked (VerifyToolResult.data (handleVerifyAttestation
      (mockService (mockEAS (Some (mockRecord ''0xmockattestationuid'' 1640995200 0 1650000000))
                            (mockTransaction None)))
      1700000000000 mockVerifyInput)) = Some True"
proof -
  let ?eas = "mockEAS (Some (mockRecord ''0xmockattestationuid'' 1640995200 0 1650000000))
                      (mockTransaction None)"
  have s: "mockService ?eas (VerifyAttestationInput.network mockVerifyInput) = Inr ?eas"
    by (simp add: mockService_def)
  have v: "verifyAttestation ?eas mockVerifyInput = Inr (Some
     \<lparr>AttestationData.uid = ''0xmockattestationuid'',
      AttestationData.schema = ''0xmockschema'',
      AttestationData.recipient = ''0x1234567890123456789012345678901234567890'',
      AttestationData.attester = ''0x0987654321098765432109876543210987654321'',
      AttestationData.revocable = True,
      AttestationData.refUID = ZERO_UID,
      AttestationData.data = ''0xmockdata'',
      AttestationData.time = Number 1640995200,
      AttestationData.expirationTime = Number 0,
      AttestationData.revocationTime = Number 1650000000\<rparr>)"
    by (simp add: verifyAttestation_def verifyAttestation_try_def mockEAS_def mockRecord_def
        mockVerifyInput_def ZERO_UID_def MAX_SAFE_INTEGER_def toNumber_def roundToDouble_def)
  from verify_derived_state
    [where newAttestationService = "mockService ?eas" and args = mockVerifyInput
       and Date_now = 1700000000000, OF s v]
  show ?thesis
    by auto
qed

section \<open>Absence on the read paths\<close>




section \<open>Timestamp normalisation\<close>

lemma verifyAttestation_normalizes:
  assumes "getAttestation eas (VerifyAttestationInput.uid vinput) = Inr (Some r)"
    and "EASAttestation.uid r \<noteq> ZERO_UID"
    and "0 \<le> EASAttestation.time r" "0 \<le> EASAttestation.expirationTime r"
        "0 \<le> EASAttestation.revocationTime r"
  shows "\<exists>a. verifyAttestation eas vinput = Inr (Some a) \<and>
             normalizedFrom (EASAttestation.time r) (EASAttestation.expirationTime r)
               (EASAttestation.revocationTime r) a"
  using assms
  by (simp add: verifyAttestation_def verifyAttestation_try_def normalizedFrom_def clamp_point_read)

lemma queryAttestationsByUID_normalizes:
  assumes "fetchOne (getGraphQLEndpoint env config) (attestationBody uid') = Inr replyOne"
    and "ok replyOne" "json replyOne = Inr bodyOne"
    and "GraphQLResponse.data bodyOne = Some \<lparr>attestation = Some g\<rparr>"
    and "numericWire g"
  shows "\<exists>a. queryAttestationsByUID env fetchOne config uid' = Inr (Some a) \<and>
             normalizedFrom (numeralValue (timeCreated g))
               (numeralValue (GraphQLAttestation.expirationTime g))
               (numeralValue (GraphQLAttestation.revocationTime g)) a"
proof -
  from transformAttestation_numeric [OF assms(5)] obtain a where
    "transformAttestation g = Inr a"
    "normalizedFrom (numeralValue (timeCreated g))
       (numeralValue (GraphQLAttestation.expirationTime g))
       (numeralValue (GraphQLAttestation.revocationTime g)) a"
    by blast
  with assms(1-4) show ?thesis
    by (simp add: queryAttestationsByUID_def queryAttestationsByUID_try_def Let_def)
qed

lemma queryAttestations_normalizes:
  assumes "fetchMany (getGraphQLEndpoint env config) (attestationsBody filters) = Inr reply"
    and "ok reply" "json reply = Inr body" "errors body = None"
    and "GraphQLResponse.data body = Some d"
    and "list_all numericWire (attestations d)"
  shows "\<exists>as. queryAttestations env fetchMany config filters = Inr as \<and>
           list_all2
             (\<lambda>w a. normalizedFrom (numeralValue (timeCreated w))
                      (numeralValue (GraphQLAttestation.expirationTime w))
                      (numeralValue (GraphQLAttestation.revocationTime w)) a)
             (attestations d) as"
proof -
  have "\<forall>w \<in> set (attestations d). \<exists>a. transformAttestation w = Inr a \<and>
          normalizedFrom (numeralValue (timeCreated w))
            (numeralValue (GraphQLAttestation.expirationTime w))
            (numeralValue (GraphQLAttestation.revocationTime w)) a"
    using assms(6) by (simp add: list_all_iff transformAttestation_numeric)
  from mapE_all_ok [OF this] obtain as where
    "mapE transformAttestation (attestations d) = Inr as"
    "list_all2
       (\<lambda>w a. normalizedFrom (numeralValue (timeCreated w))
                (numeralValue (GraphQLAttestation.expirationTime w))
                (numeralValue (GraphQLAttestation.revocationTime w)) a)
       (attestations d) as"
    by blast
  with assms(1-5) show ?thesis
    by (simp add: queryAttestations_def queryAttestations_try_def Let_def)
qed

text \<open>
  C3. Every non-negative timestamp leaves the ledger-facing boundary normalised: unchanged
  up to the maximum safe integer, and exactly the maximum safe integer above it (no
  wrap-around and no rounded value). This holds for the creation, expiration and
  revocation timestamps alike, on the point read (\<open>verifyAttestation\<close>, from the ledger's
  bigints) and on both index queries (from the decimal numerals of the wire).
\<close>

theorem timestamps_normalized:
  "(getAttestation eas (VerifyAttestationInput.uid vinput) = Inr (Some r) \<and>
    EASAttestation.uid r \<noteq> ZERO_UID \<and>
    0 \<le> EASAttestation.time r \<and> 0 \<le> EASAttestation.expirationTime r \<and>
    0 \<le> EASAttestation.revocationTime r \<longrightarrow>
      (\<exists>a. verifyAttestation eas vinput = Inr (Some a) \<and>
           normalizedFrom (EASAttestation.time r) (EASAttestation.expirationTime r)
             (EASAttestation.revocationTime r) a)) \<and>
   (fetchOne (getGraphQLEndpoint env config) (attestationBody uid') = Inr replyOne \<and>
    ok replyOne \<and> json replyOne = Inr bodyOne \<and>
    GraphQLResponse.data bodyOne = Some \<lparr>attestation = Some g\<rparr> \<and> numericWire g \<longrightarrow>
      (\<exists>a. queryAttestationsByUID env fetchOne config uid' = Inr (Some a) \<and>
           normalizedFrom (numeralValue (timeCreated g))
             (numeralValue (GraphQLAttestation.expirationTime g))
             (numeralValue (GraphQLAttestation.revocationTime g)) a)) \<and>
   (fetchMany (getGraphQLEndpoint env config) (attestationsBody filters) = Inr reply \<and>
    ok reply \<and> json reply = Inr body \<and> errors body = None \<and>
    GraphQLResponse.data body = Some d \<and> list_all numericWire (attestations d) \<longrightarrow>
      (\<exists>as. queryAttestations env fetchMany config filters = Inr as \<and>
         list_all2
           (\<lambda>w a. normalizedFrom (numeralValue (timeCreated w))
                    (numeralValue (GraphQLAttestation.expirationTime w))
                    (numeralValue (GraphQLAttestation.revocationTime w)) a)
           (attestations d) as))"
  using verifyAttestation_normalizes [of eas vinput r]
    queryAttestationsByUID_normalizes [of fetchOne env config uid' replyOne bodyOne g]
    queryAttestations_normalizes [of fetchMany env config filters reply body d]
  by blast

text \<open>
  A ledger record and two wire records with an expiration one above the maximum safe
  integer (\<open>2^53\<close> on the ledger, \<open>2^53 + 1\<close>, which is not a double, on the wire).
\<close>

theorem timestamps_normalized_witness:
  "(\<exists>a. verifyAttestation
          (mockEAS (Some (mockRecord ''0xmockattestationuid'' 1640995200 9007199254740992 0))
                   (mockTransaction None)) mockVerifyInput = Inr (Some a) \<and>
        AttestationData.time a = Number 1640995200 \<and>
        AttestationData.expirationTime a = Number 9007199254740991 \<and>
        AttestationData.revocationTime a = Number 0) \<and>
   (\<exists>a. queryAttestationsByUID mockEnv
          (mockFetch (mockReply
             (Some \<lparr>attestation =
                Some (mockWire ''0xabc'' ''1640995200'' ''9007199254740993'' ''0'')\<rparr>) None))
          mockConfig ''0xabc'' = Inr (Some a) \<and>
        AttestationData.time a = Number 1640995200 \<and>
        AttestationData.expirationTime a = Number 9007199254740991 \<and>
        AttestationData.revocationTime a = Number 0) \<and>
   (\<exists>as. queryAttestations mockEnv
          (mockFetch (mockReply
             (Some \<lparr>attestations =
                [mockWire ''0xabc'' ''1640995200'' ''9007199254740993'' ''0'',
                 mockWire ''0xdef'' ''1640995200'' ''0'' ''1650000000'']\<rparr>) None))
          mockConfig (mockFilters None None) = Inr as \<and>
        map AttestationData.expirationTime as = [Number 9007199254740991, Number 0] \<and>
        map AttestationData.revocationTime as = [Number 0, Number 1650000000])"
proof -
  let ?r = "mockRecord ''0xmockattestationuid'' 1640995200 9007199254740992 0"
  let ?eas = "mockEAS (Some ?r) (mockTransaction None)"
  let ?g = "mockWire ''0xabc'' ''1640995200'' ''9007199254740993'' ''0''"
  let ?g' = "mockWire ''0xdef'' ''1640995200'' ''0'' ''1650000000''"
  let ?dOne = "\<lparr>attestation = Some ?g\<rparr>"
  let ?d = "\<lparr>attestations = [?g, ?g']\<rparr>"
  let ?bodyOne = "\<lparr>GraphQLResponse.data = Some ?dOne, errors = None\<rparr>"
  let ?body = "\<lparr>GraphQLResponse.data = Some ?d, errors = None\<rparr>"
  have vals:
    "numeralValue ''1640995200'' = 1640995200"
    "numeralValue ''9007199254740993'' = 9007199254740993"
    "numeralValue ''0'' = 0"
    "numeralValue ''1650000000'' = 1650000000"
    by (simp_all add: numeralValue_def digitsValue_def digitValue_def)
  have norm:
    "normalize_spec 1640995200 = 1640995200"
    "normalize_spec 9007199254740992 = 9007199254740991"
    "normalize_spec 9007199254740993 = 9007199254740991"
    "normalize_spec 0 = 0"
    "normalize_spec 1650000000 = 1650000000"
    by (simp_all add: normalize_spec_def MAX_SAFE_INTEGER_def)
  have numeric: "numericWire ?g" "numericWire ?g'"
    by (simp_all add: numericWire_def isNumeral_def isDigit_def mockWire_def)
  have point:
    "getAttestation ?eas (VerifyAttestationInput.uid mockVerifyInput) = Inr (Some ?r) \<and>
     EASAttestation.uid ?r \<noteq> ZERO_UID \<and>
     0 \<le> EASAttestation.time ?r \<and> 0 \<le> EASAttestation.expirationTime ?r \<and>
     0 \<le> EASAttestation.revocationTime ?r"
    by (simp add: mockEAS_def mockRecord_def ZERO_UID_def)
  have one:
    "mockFetch (mockReply (Some ?dOne) None) (getGraphQLEndpoint mockEnv mockConfig)
       (attestationBody ''0xabc'') = Inr (mockReply (Some ?dOne) None) \<and>
     ok (mockReply (Some ?dOne) None) \<and> json (mockReply (Some ?dOne) None) = Inr ?bodyOne \<and>
     GraphQLResponse.data ?bodyOne = Some \<lparr>attestation = Some ?g\<rparr> \<and> numericWire ?g"
    using numeric by (simp add: mockFetch_def mockReply_def)
  have many:
    "mockFetch (mockReply (Some ?d) None) (getGraphQLEndpoint mockEnv mockConfig)
       (attestationsBody (mockFilters None None)) = Inr (mockReply (Some ?d) None) \<and>
     ok (mockReply (Some ?d) None) \<and> json (mockReply (Some ?d) None) = Inr ?body \<and>
     errors ?body = None \<and> GraphQLResponse.data ?body = Some ?d \<and>
     list_all numericWire (attestations ?d)"
    using numeric by (simp add: mockFetch_def mockReply_def)
  note inst = timestamps_normalized
    [where eas = ?eas and vinput = mockVerifyInput and r = ?r
       and fetchOne = "mockFetch (mockReply (Some ?dOne) None)" and env = mockEnv
       and config = mockConfig and uid' = "''0xabc''"
       and replyOne = "mockReply (Some ?dOne) None" and bodyOne = ?bodyOne and g = ?g
       and fetchMany = "mockFetch (mockReply (Some ?d) None)"
       and filters = "mockFilters None None" and reply = "mockReply (Some ?d) None"
       and body = ?body and d = ?d]
  from inst point have "\<exists>a. verifyAttestation ?eas mockVerifyInput = Inr (Some a) \<and>
        normalizedFrom (EASAttestation.time ?r) (EASAttestation.expirationTime ?r)
          (EASAttestation.revocationTime ?r) a"
    by blast
  then have 1: "\<exists>a. verifyAttestation ?eas mockVerifyInput = Inr (Some a) \<and>
        AttestationData.time a = Number 1640995200 \<and>
        AttestationData.expirationTime a = Number 9007199254740991 \<and>
        AttestationData.revocationTime a = Number 0"
    by (simp add: normalizedFrom_def mockRecord_def norm)
  have stamps:
    "timeCreated ?g = ''1640995200''"
    "GraphQLAttestation.expirationTime ?g = ''9007199254740993''"
    "GraphQLAttestation.revocationTime ?g = ''0''"
    "timeCreated ?g' = ''1640995200''"
    "GraphQLAttestation.expirationTime ?g' = ''0''"
    "GraphQLAttestation.revocationTime ?g' = ''1650000000''"
    by (simp_all add: mockWire_def)
  from inst one have "\<exists>a. queryAttestationsByUID mockEnv
          (mockFetch (mockReply (Some ?dOne) None)) mockConfig ''0xabc'' = Inr (Some a) \<and>
        normalizedFrom (numeralValue (timeCreated ?g))
          (numeralValue (GraphQLAttestation.expirationTime ?g))
          (numeralValue (GraphQLAttestation.revocationTime ?g)) a"
    by blast
  then have 2: "\<exists>a. queryAttestationsByUID mockEnv
          (mockFetch (mockReply (Some ?dOne) None)) mockConfig ''0xabc'' = Inr (Some a) \<and>
        AttestationData.time a = Number 1640995200 \<and>
        AttestationData.expirationTime a = Number 9007199254740991 \<and>
        AttestationData.revocationTime a = Number 0"
    by (simp add: normalizedFrom_def stamps vals norm)
  from inst many obtain as where as:
    "queryAttestations mockEnv (mockFetch (mockReply (Some ?d) None)) mockConfig
       (mockFilters None None) = Inr as"
    "list_all2
       (\<lambda>w a. normalizedFrom (numeralValue (timeCreated w))
                (numeralValue (GraphQLAttestation.expirationTime w))
                (numeralValue (GraphQLAttestation.revocationTime w)) a)
       (attestations ?d) as"
    by blast
  from as(2) obtain a b where ab: "as = [a, b]"
    "normalizedFrom (numeralValue (timeCreated ?g))
       (numeralValue (GraphQLAttestation.expirationTime ?g))
       (numeralValue (GraphQLAttestation.revocationTime ?g)) a"
    "normalizedFrom (numeralValue (timeCreated ?g'))
       (numeralValue (GraphQLAttestation.expirationTime ?g'))
       (numeralValue (GraphQLAttestation.revocationTime ?g')) b"
    by (auto simp: list_all2_Cons1)
  from ab(2,3) have fields:
    "AttestationData.expirationTime a = Number 9007199254740991"
    "AttestationData.expirationTime b = Number 0"
    "AttestationData.revocationTime a = Number 0"
    "AttestationData.revocationTime b = Number 1650000000"
    by (simp_all add: normalizedFrom_def stamps vals norm)
  have 3: "\<exists>as. queryAttestations mockEnv
          (mockFetch (mockReply (Some ?d) None)) mockConfig (mockFilters None None) = Inr as \<and>
        map AttestationData.expirationTime as = [Number 9007199254740991, Number 0] \<and>
        map AttestationData.revocationTime as = [Number 0, Number 1650000000]"
  proof (intro exI conjI)
    show "queryAttestations mockEnv (mockFetch (mockReply (Some ?d) None)) mockConfig
       (mockFilters None None) = Inr as"
      by (rule as(1))
    show "map AttestationData.expirationTime as = [Number 9007199254740991, Number 0]"
      by (simp add: ab(1) fields)
    show "map AttestationData.revocationTime as = [Number 0, Number 1650000000]"
      by (simp add: ab(1) fields)
  qed
  show ?thesis by (intro conjI) (rule 1, rule 2, rule 3)
qed

section \<open>Revocation of a missing record\<close>

text \<open>
  C4. When the read that precedes a revocation finds nothing (no record, or the record
  whose identifier is the all-zero sentinel), \<open>revokeAttestation\<close> fails with a
  not-found error that names the identifier, and the read is the only call it made on
  the ledger: no revocation is submitted.
\<close>

theorem revoke_absent_not_found:
  assumes "getAttestation eas (RevokeAttestationInput.uid input) = Inr None \<or>
           (\<exists>r. getAttestation eas (RevokeAttestationInput.uid input) = Inr (Some r) \<and>
                EASAttestation.uid r = ZERO_UID)"
  shows "revokeAttestation eas input =
           (Inl (Error (''Failed to revoke attestation: Attestation '' @
                        RevokeAttestationInput.uid input @ '' not found'')),
            [CallGetAttestation (RevokeAttestationInput.uid input)])"
  using assms
  by (auto simp: revokeAttestation_def revokeAttestation_try_def Let_def)

text \<open>
  The ledger of the test suite's "non-existent" case answers with the sentinel record;
  its \<open>revoke\<close> would succeed, and is not reached.
\<close>

theorem revoke_absent_not_found_witness:
  "revokeAttestation (mockEAS (Some (mockRecord ZERO_UID 0 0 0)) (mockTransaction None))
     mockRevokeInput =
     (Inl (Error ''Failed to revoke attestation: Attestation 0xnonexistent not found''),
      [CallGetAttestation ''0xnonexistent''])"
proof -
  let ?eas = "mockEAS (Some (mockRecord ZERO_UID 0 0 0)) (mockTransaction None)"
  have h: "getAttestation ?eas (RevokeAttestationInput.uid mockRevokeInput) = Inr None \<or>
           (\<exists>r. getAttestation ?eas (RevokeAttestationInput.uid mockRevokeInput) = Inr (Some r) \<and>
                EASAttestation.uid r = ZERO_UID)"
    by (simp add: mockEAS_def mockRecord_def)
  from revoke_absent_not_found [OF h] show ?thesis
    by (simp add: mockRevokeInput_def)
qed

section \<open>Filter clauses of the query\<close>

text \<open>
  C5, as stated, has a clause for every filter the caller supplies. The template tests
  the truthiness of each filter, so a recipient supplied as the empty string gets no
  clause.
\<close>

theorem empty_recipient_filter_has_no_clause:
  "Filters.recipient (mockFilters (Some []) None) = Some [] \<and>
   \<not> sublist ''recipient: $recipient,'' (attestationsQuery (mockFilters (Some []) None))"
  by (simp add: mockFilters_def attestationsQuery_def sublist_code(3))

text \<open>
  C5, amended. The query document that \<open>queryAttestations\<close> posts contains the clause of
  a filter exactly when that filter is supplied with a non-empty value, for each of
  recipient, attester and schema; a filter that is absent or empty has no clause. So a
  call with a recipient alone posts a query with the recipient clause and neither of the
  other two.
\<close>

theorem where_clauses_follow_truthiness:
  "(sublist ''recipient: $recipient,'' (attestationsQuery filters) \<longleftrightarrow>
      truthy (Filters.recipient filters)) \<and>
   (sublist ''attester: $attester,'' (attestationsQuery filters) \<longleftrightarrow>
      truthy (Filters.attester filters)) \<and>
   (sublist ''schemaId: $schema,'' (attestationsQuery filters) \<longleftrightarrow>
      truthy (Filters.schema filters)) \<and>
   QueryBody.query (attestationsBody filters) = attestationsQuery filters"
  by (simp add: query_recipient_clause query_attester_clause query_schema_clause
      attestationsBody_def)

theorem where_clauses_follow_truthiness_witness:
  "sublist ''recipient: $recipient,''
     (attestationsQuery (mockFilters (Some ''0x1234567890123456789012345678901234567890'') None)) \<and>
   \<not> sublist ''attester: $attester,''
     (attestationsQuery (mockFilters (Some ''0x1234567890123456789012345678901234567890'') None)) \<and>
   \<not> sublist ''schemaId: $schema,''
     (attestationsQuery (mockFilters (Some ''0x1234567890123456789012345678901234567890'') None))"
  using where_clauses_follow_truthiness
    [of "mockFilters (Some ''0x1234567890123456789012345678901234567890'') None"]
  by (simp add: mockFilters_def)

section \<open>Timestamps that do not parse\<close>






section \<open>Reply checks of the single lookup\<close>

text \<open>
  C7. \<open>queryAttestationsByUID\<close> is to fail, as \<open>queryAttestations\<close> does, on a reply that
  carries service errors and on a reply without the payload container. It does neither:
  on a successful status it reads \<open>response.data?.attestation\<close> and nothing else, so both
  replies come back as \<open>null\<close>, the answer for "no such record", where
  \<open>queryAttestations\<close> fails on the same replies.
\<close>

theorem queryOne_swallows_service_errors:
  "queryAttestationsByUID mockEnv
     (mockFetch (mockReply None (Some [\<lparr>GraphQLError.message = ''boom''\<rparr>])))
     mockConfig ''0xabc'' = Inr None \<and>
   queryAttestations mockEnv
     (mockFetch (mockReply None (Some [\<lparr>GraphQLError.message = ''boom''\<rparr>])))
     mockConfig (mockFilters None None) =
     Inl (Error ''GraphQL query failed: GraphQL errors: boom'') \<and>
   queryAttestationsByUID mockEnv (mockFetch (mockReply None None)) mockConfig ''0xabc'' =
     Inr None \<and>
   queryAttestations mockEnv (mockFetch (mockReply None None)) mockConfig
     (mockFilters None None) =
     Inl (Error ''GraphQL query failed: No data returned from GraphQL query'')"
  by (simp add: queryAttestationsByUID_def queryAttestationsByUID_try_def queryAttestations_def
      queryAttestations_try_def mockFetch_def mockReply_def Let_def)

section \<open>The placeholder identifier\<close>

lemma issueAttestation_unknown:
  assumes "attestationRequest BigInt_string input = Inr request"
    and "attest eas request = Inr tx" "wait tx = Inr u" "noIdentifier (getAttestationUID tx)"
  shows "issueAttestation BigInt_string eas input =
           Inr \<lparr>WriteResult.uid = ''unknown'',
                WriteResult.txHash = or_else (hash tx) ''unknown''\<rparr>"
  using assms
  by (auto simp: issueAttestation_def issueAttestation_try_def noIdentifier_def Let_def
      or_else_falsy split: option.splits sum.splits)

lemma createSchema_unknown:
  assumes "getSchemaRegistry eas = Inr registry"
    and "register registry (CreateSchemaInput.schema sinput)
           (or_else (resolverAddress sinput) ZERO_ADDRESS)
           (CreateSchemaInput.revocable sinput) = Inr tx"
    and "wait tx = Inr u" "noIdentifier (getSchemaUID tx)"
  shows "createSchema eas sinput =
           Inr \<lparr>WriteResult.uid = ''unknown'',
                WriteResult.txHash = or_else (hash tx) ''unknown''\<rparr>"
  using assms
  by (auto simp: createSchema_def createSchema_try_def noIdentifier_def Let_def
      or_else_falsy split: option.splits sum.splits)

text \<open>
  C8, as stated, returns the placeholder whenever the derivation of the identifier fails.
  A derivation method that is present and throws is not caught on its own: the throw
  reaches the \<open>catch\<close> of the operation, which fails although the write was confirmed.
\<close>

theorem derivation_failure_propagates:
  "issueAttestation mockBigInt
     (mockEAS None (mockTransaction (Some (Inl (Error ''boom''))))) mockIssueInput =
     Inl (Error ''Failed to issue attestation: boom'') \<and>
   createSchema (mockEAS None (mockTransaction (Some (Inl (Error ''boom''))))) mockSchemaInput =
     Inl (Error ''Failed to create schema: boom'')"
  by (simp add: issueAttestation_def issueAttestation_try_def attestationRequest_def
      createSchema_def createSchema_try_def mockEAS_def mockTransaction_def mockIssueInput_def
      mockSchemaInput_def Let_def)

text \<open>
  C8, amended. When a write is confirmed and the derivation of the identifier is
  unsupported (the transaction has no such method) or gives no identifier (\<open>undefined\<close>
  or the empty string), \<open>issueAttestation\<close> and \<open>createSchema\<close> return the identifier
  \<open>"unknown"\<close> together with the hash of the transaction (\<open>"unknown"\<close> too when the
  transaction carries none), and do not throw.
\<close>

theorem unknown_identifier_placeholder:
  "(attestationRequest BigInt_string input = Inr request \<and> attest eas request = Inr tx \<and>
    wait tx = Inr u \<and> noIdentifier (getAttestationUID tx) \<longrightarrow>
      issueAttestation BigInt_string eas input =
        Inr \<lparr>WriteResult.uid = ''unknown'',
             WriteResult.txHash = or_else (hash tx) ''unknown''\<rparr>) \<and>
   (getSchemaRegistry eas = Inr registry \<and>
    register registry (CreateSchemaInput.schema sinput)
      (or_else (resolverAddress sinput) ZERO_ADDRESS)
      (CreateSchemaInput.revocable sinput) = Inr stx \<and>
    wait stx = Inr u \<and> noIdentifier (getSchemaUID stx) \<longrightarrow>
      createSchema eas sinput =
        Inr \<lparr>WriteResult.uid = ''unknown'',
             WriteResult.txHash = or_else (hash stx) ''unknown''\<rparr>)"
  using issueAttestation_unknown [of BigInt_string input request eas tx u]
    createSchema_unknown [of eas registry sinput stx u]
  by blast

text \<open>The mocks of the test suite with the derivation methods taken away.\<close>

theorem unknown_identifier_placeholder_witness:
  "issueAttestation mockBigInt (mockEAS None (mockTransaction None)) mockIssueInput =
     Inr \<lparr>WriteResult.uid = ''unknown'', WriteResult.txHash = ''0xmocktxhash''\<rparr> \<and>
   createSchema (mockEAS None (mockTransaction None)) mockSchemaInput =
     Inr \<lparr>WriteResult.uid = ''unknown'', WriteResult.txHash = ''0xmocktxhash''\<rparr>"
proof -
  let ?tx = "mockTransaction None"
  let ?eas = "mockEAS None ?tx"
  let ?request = "\<lparr>AttestationRequest.schema = ''0xmockschema'',
      AttestationRequest.data =
        \<lparr>AttestationRequestData.recipient = ''0x1234567890123456789012345678901234567890'',
         AttestationRequestData.expirationTime = 0,
         AttestationRequestData.revocable = True,
         AttestationRequestData.refUID = ZERO_UID,
         AttestationRequestData.data = ''0xmockdata'',
         AttestationRequestData.value = 0\<rparr>\<rparr>"
  let ?registry = "\<lparr>register = (\<lambda>schema' resolver revocable'. Inr ?tx)\<rparr>"
  have a: "attestationRequest mockBigInt mockIssueInput = Inr ?request \<and>
           attest ?eas ?request = Inr ?tx \<and> wait ?tx = Inr () \<and>
           noIdentifier (getAttestationUID ?tx)"
    by (simp add: attestationRequest_def mockIssueInput_def mockEAS_def mockTransaction_def
        noIdentifier_def)
  have b: "getSchemaRegistry ?eas = Inr ?registry \<and>
           register ?registry (CreateSchemaInput.schema mockSchemaInput)
             (or_else (resolverAddress mockSchemaInput) ZERO_ADDRESS)
             (CreateSchemaInput.revocable mockSchemaInput) = Inr ?tx \<and>
           wait ?tx = Inr () \<and> noIdentifier (getSchemaUID ?tx)"
    by (simp add: mockEAS_def mockTransaction_def noIdentifier_def)
  have h: "or_else (hash ?tx) ''unknown'' = ''0xmocktxhash''"
    by (simp add: mockTransaction_def)
  from unknown_identifier_placeholder
    [where BigInt_string = mockBigInt and input = mockIssueInput and request = ?request
       and eas = ?eas and tx = ?tx and u = "()" and registry = ?registry
       and sinput = mockSchemaInput and stx = ?tx] a b h
  show ?thesis by simp
qed

section \<open>The default limit\<close>

lemma attestationsVariables_limit:
  "Filters.limit filters = None \<or> Filters.limit filters = Some (Number 0) \<Longrightarrow>
   Variables.limit (attestationsVariables filters) = Number 10"
  by (auto simp: attestationsVariables_def)

lemma attestationsBody_limit:
  "Filters.limit filters = None \<or> Filters.limit filters = Some (Number 0) \<Longrightarrow>
   attestationsBody filters = bodyWithLimit (Number 10) filters"
  by (auto simp: attestationsBody_def attestationsVariables_def bodyWithLimit_def)

text \<open>
  \<open>queryAttestations\<close> calls \<open>fetch\<close> once, on the endpoint and the body of the filters:
  a rejection becomes its failure, and a reply is all it keeps of \<open>fetch\<close>.
\<close>

lemma queryAttestations_fetch:
  "queryAttestations env fetch config filters =
     (case fetch (getGraphQLEndpoint env config) (attestationsBody filters) of
        Inl e \<Rightarrow>
          Inl (Error (''GraphQL query failed: '' @ errorMessage ''Unknown GraphQL error'' e))
      | Inr reply \<Rightarrow> queryAttestations env (\<lambda>endpoint body. Inr reply) config filters)"
  by (simp add: queryAttestations_def queryAttestations_try_def Let_def split: sum.splits)

lemma listAttestations_fetch:
  "listAttestations env fetch config input =
     (case fetch (getGraphQLEndpoint env config) (attestationsBody (listFilters input)) of
        Inl e \<Rightarrow>
          Inl (Error (''Failed to list attestations: GraphQL query failed: '' @
                      errorMessage ''Unknown GraphQL error'' e))
      | Inr reply \<Rightarrow> listAttestations env (\<lambda>endpoint body. Inr reply) config input)"
  by (simp add: listAttestations_def listFilters_def [symmetric]
      queryAttestations_fetch [of env fetch] split: sum.splits)

lemma queryAttestations_limit_guard:
  assumes "Filters.limit filters = None \<or> Filters.limit filters = Some (Number 0)"
  shows "queryAttestations env fetch config filters =
           queryAttestations env
             (\<lambda>endpoint body.
                if Variables.limit (QueryBody.variables body) = Number 10
                then fetch endpoint body else Inl NonError)
             config filters"
  using attestationsVariables_limit [OF assms]
  by (simp add: queryAttestations_def queryAttestations_try_def attestationsBody_def Let_def)

text \<open>
  C10. When the caller omits \<open>limit\<close> or passes \<open>0\<close>, the query sent to the index service
  carries \<open>limit = 10\<close> (\<open>filters.limit || 10\<close> replaces every falsy value).
  \<open>queryAttestations\<close>, and \<open>listAttestations\<close> which hands its limit on, call \<open>fetch\<close> on
  the body with the filters as they are and the limit 10: what \<open>fetch\<close> answers to that
  body decides the result (its rejection is the failure of the call, its reply is what
  the call goes on with), and a \<open>fetch\<close> that refuses every body whose limit is not 10
  changes nothing.
\<close>

theorem limit_falsy_default:
  "(Filters.limit filters = None \<or> Filters.limit filters = Some (Number 0) \<longrightarrow>
      Variables.limit (attestationsVariables filters) = Number 10 \<and>
      attestationsBody filters = bodyWithLimit (Number 10) filters \<and>
      queryAttestations env fetch config filters =
        (case fetch (getGraphQLEndpoint env config) (bodyWithLimit (Number 10) filters) of
           Inl e \<Rightarrow>
             Inl (Error (''GraphQL query failed: '' @ errorMessage ''Unknown GraphQL error'' e))
         | Inr reply \<Rightarrow> queryAttestations env (\<lambda>endpoint body. Inr reply) config filters) \<and>
      queryAttestations env fetch config filters =
        queryAttestations env
          (\<lambda>endpoint body.
             if Variables.limit (QueryBody.variables body) = Number 10
             then fetch endpoint body else Inl NonError)
          config filters) \<and>
   (ListAttestationsInput.limit input = None \<or>
    ListAttestationsInput.limit input = Some (Number 0) \<longrightarrow>
      listAttestations env fetch config input =
        (case fetch (getGraphQLEndpoint env config)
                (bodyWithLimit (Number 10) (listFilters input)) of
           Inl e \<Rightarrow>
             Inl (Error (''Failed to list attestations: GraphQL query failed: '' @
                         errorMessage ''Unknown GraphQL error'' e))
         | Inr reply \<Rightarrow> listAttestations env (\<lambda>endpoint body. Inr reply) config input) \<and>
      listAttestations env fetch config input =
        listAttestations env
          (\<lambda>endpoint body.
             if Variables.limit (QueryBody.variables body) = Number 10
             then fetch endpoint body else Inl NonError)
          config input)"
proof (intro conjI impI)
  assume falsy: "Filters.limit filters = None \<or> Filters.limit filters = Some (Number 0)"
  show "Variables.limit (attestationsVariables filters) = Number 10"
    using falsy by (rule attestationsVariables_limit)
  show "attestationsBody filters = bodyWithLimit (Number 10) filters"
    using falsy by (rule attestationsBody_limit)
  show "queryAttestations env fetch config filters =
        (case fetch (getGraphQLEndpoint env config) (bodyWithLimit (Number 10) filters) of
           Inl e \<Rightarrow>
             Inl (Error (''GraphQL query failed: '' @ errorMessage ''Unknown GraphQL error'' e))
         | Inr reply \<Rightarrow> queryAttestations env (\<lambda>endpoint body. Inr reply) config filters)"
    using queryAttestations_fetch [of env fetch config filters]
    by (simp only: attestationsBody_limit [OF falsy])
  show "queryAttestations env fetch config filters =
        queryAttestations env
          (\<lambda>endpoint body.
             if Variables.limit (QueryBody.variables body) = Number 10
             then fetch endpoint body else Inl NonError)
          config filters"
    using falsy by (rule queryAttestations_limit_guard)
next
  assume "ListAttestationsInput.limit input = None \<or>
    ListAttestationsInput.limit input = Some (Number 0)"
  then have falsy: "Filters.limit (listFilters input) = None \<or>
      Filters.limit (listFilters input) = Some (Number 0)"
    by (simp add: listFilters_def)
  show "listAttestations env fetch config input =
        (case fetch (getGraphQLEndpoint env config)
                (bodyWithLimit (Number 10) (listFilters input)) of
           Inl e \<Rightarrow>
             Inl (Error (''Failed to list attestations: GraphQL query failed: '' @
                         errorMessage ''Unknown GraphQL error'' e))
         | Inr reply \<Rightarrow> listAttestations env (\<lambda>endpoint body. Inr reply) config input)"
    using listAttestations_fetch [of env fetch config input]
    by (simp only: attestationsBody_limit [OF falsy])
  from queryAttestations_limit_guard [OF falsy, of env fetch config]
  show "listAttestations env fetch config input =
        listAttestations env
          (\<lambda>endpoint body.
             if Variables.limit (QueryBody.variables body) = Number 10
             then fetch endpoint body else Inl NonError)
          config input"
    by (simp only: listAttestations_def listFilters_def)
qed

text \<open>
  An explicit \<open>limit: 0\<close> and an omitted limit, against an index service that answers
  only requests whose limit is 10: both calls get its (empty) reply.
\<close>

theorem limit_falsy_default_witness:
  "queryAttestations mockEnv
     (mockFetchLimit (Number 10) (mockReply (Some \<lparr>attestations = []\<rparr>) None))
     mockConfig (mockFilters None (Some (Number 0))) = Inr [] \<and>
   listAttestations mockEnv
     (mockFetchLimit (Number 10) (mockReply (Some \<lparr>attestations = []\<rparr>) None))
     mockConfig (mockListInput None) = Inr [] \<and>
   Variables.limit (attestationsVariables (mockFilters None (Some (Number 0)))) = Number 10"
proof -
  let ?reply = "mockReply (Some \<lparr>attestations = []\<rparr>) None"
  let ?fetch = "mockFetchLimit (Number 10) ?reply"
  have a: "Filters.limit (mockFilters None (Some (Number 0))) = None \<or>
           Filters.limit (mockFilters None (Some (Number 0))) = Some (Number 0)"
    by (simp add: mockFilters_def)
  have b: "ListAttestationsInput.limit (mockListInput None) = None \<or>
           ListAttestationsInput.limit (mockListInput None) = Some (Number 0)"
    by (simp add: mockListInput_def)
  have answered: "?fetch endpoint (bodyWithLimit (Number 10) filters) = Inr ?reply"
    for endpoint filters
    by (simp add: mockFetchLimit_def bodyWithLimit_def)
  have empty: "queryAttestations mockEnv (\<lambda>endpoint body. Inr ?reply) mockConfig filters =
      Inr []" for filters
    by (simp add: queryAttestations_def queryAttestations_try_def mockReply_def Let_def)
  have emptyList: "listAttestations mockEnv (\<lambda>endpoint body. Inr ?reply) mockConfig input =
      Inr []" for input
    by (simp add: listAttestations_def empty)
  note inst = limit_falsy_default
    [where filters = "mockFilters None (Some (Number 0))" and input = "mockListInput None"
       and env = mockEnv and config = mockConfig and fetch = ?fetch]
  from inst a have 1: "queryAttestations mockEnv ?fetch mockConfig
      (mockFilters None (Some (Number 0))) = Inr []"
    by (simp add: answered empty)
  from inst b have 2: "listAttestations mockEnv ?fetch mockConfig (mockListInput None) =
      Inr []"
    by (simp add: answered emptyList)
  from inst a have 3:
    "Variables.limit (attestationsVariables (mockFilters None (Some (Number 0)))) = Number 10"
    by blast
  show ?thesis by (intro conjI) (rule 1, rule 2, rule 3)
qed

end
